theory Spec2Isabelle
  imports Complex_Main
begin

section \<open>Etherial Particles backend: a shallow embedding of server.py\<close>

text \<open>
  The development follows \<^verbatim>\<open>src/backend/server.py\<close>. Python exceptions are values
  of \<open>py_error\<close>, a function that may raise returns \<open>py_error + 'a\<close> (\<open>Inl\<close> the
  exception), dictionaries are partial maps or association lists, and the module-level
  detector handles are parameters of the functions that read them.

  Python floats are modelled by the real numbers they denote: rounding is not modelled.
  Their range is: CPython's \<^verbatim>\<open>float ** n\<close> raises \<^verbatim>\<open>OverflowError\<close> when a finite
  base gives a result beyond the largest double, and the model raises at the same place.
\<close>

subsection \<open>Exceptions and the error monad\<close>

text \<open>
  The exceptions by their Python names; \<open>DecodeFailure\<close> and \<open>DetectorFailure\<close> stand
  for whatever the image and detection libraries raise.
\<close>

datatype py_error =
    IndexError | KeyError | OverflowError | ZeroDivisionError | TypeError
  | AttributeError | ValueError | JSONDecodeError | DecodeFailure | DetectorFailure
  | WebSocketDisconnect

definition bindE :: "'e + 'a \<Rightarrow> ('a \<Rightarrow> 'e + 'b) \<Rightarrow> 'e + 'b" where
  "bindE m f = (case m of Inl e \<Rightarrow> Inl e | Inr v \<Rightarrow> f v)"

text \<open>\<^verbatim>\<open>xs[i]\<close> for a literal index \<open>i \<ge> 0\<close>, and \<^verbatim>\<open>d[k]\<close> on a dictionary.\<close>

definition py_index :: "'a list \<Rightarrow> nat \<Rightarrow> py_error + 'a" where
  "py_index xs i = (if i < length xs then Inr (xs ! i) else Inl IndexError)"

definition py_getitem :: "('k \<rightharpoonup> 'v) \<Rightarrow> 'k \<Rightarrow> py_error + 'v" where
  "py_getitem d k = (case d k of None \<Rightarrow> Inl KeyError | Some v \<Rightarrow> Inr v)"

text \<open>\<^verbatim>\<open>d.get(k, default)\<close>.\<close>

definition py_get :: "('k \<rightharpoonup> 'v) \<Rightarrow> 'k \<Rightarrow> 'v \<Rightarrow> 'v" where
  "py_get d k dflt = (case d k of None \<Rightarrow> dflt | Some v \<Rightarrow> v)"

subsection \<open>Floats\<close>

text \<open>
  A real \<open>r\<close> rounds to an infinity exactly when \<open>\<bar>r\<bar> \<ge> 2 ^ 1024 - 2 ^ 970\<close> (the largest
  double is \<open>2 ^ 1024 - 2 ^ 971\<close>). Subtraction and addition that overflow give an infinity
  silently; here a real of that magnitude stands for it, and only its comparisons matter.
  \<^verbatim>\<open>x ** 2\<close> raises when \<open>x\<close> is finite and the square is not.
\<close>

definition dbl_threshold :: real where
  "dbl_threshold = 2 ^ 1024 - 2 ^ 970"

definition dbl_overflows :: "real \<Rightarrow> bool" where
  "dbl_overflows r \<longleftrightarrow> dbl_threshold \<le> \<bar>r\<bar>"

definition py_pow2 :: "real \<Rightarrow> py_error + real" where
  "py_pow2 d = (if \<not> dbl_overflows d \<and> dbl_overflows (d * d) then Inl OverflowError
                else Inr (d * d))"

text \<open>\<^verbatim>\<open>s ** 0.5\<close> for \<open>s \<ge> 0\<close> (a sum of squares): no exception.\<close>

definition py_pow_half :: "real \<Rightarrow> real" where
  "py_pow_half s = sqrt s"

subsection \<open>Geometry: calculate_distance\<close>

text \<open>
  A landmark is the dictionary \<^verbatim>\<open>{"id": .., "x": .., "y": .., "z": ..}\<close> with float values.
  \<^verbatim>\<open>p["x"]\<close> and \<^verbatim>\<open>p["y"]\<close> raise \<^verbatim>\<open>KeyError\<close> on a missing key, \<^verbatim>\<open>p.get("z", 0)\<close>
  does not. The three squared differences are evaluated left to right.
\<close>

text \<open>
  Squares, sum and root are exact here; the program rounds each. A statement about the
  value that \<open>calculate_distance\<close> returns does not depend on this.
\<close>

type_synonym landmark = "string \<rightharpoonup> real"

definition calculate_distance :: "landmark \<Rightarrow> landmark \<Rightarrow> py_error + real" where
  "calculate_distance p1 p2 =
     bindE (py_getitem p1 ''x'') (\<lambda>x1.
     bindE (py_getitem p2 ''x'') (\<lambda>x2.
     bindE (py_pow2 (x1 - x2)) (\<lambda>dx.
     bindE (py_getitem p1 ''y'') (\<lambda>y1.
     bindE (py_getitem p2 ''y'') (\<lambda>y2.
     bindE (py_pow2 (y1 - y2)) (\<lambda>dy.
     bindE (py_pow2 (py_get p1 ''z'' 0 - py_get p2 ''z'' 0)) (\<lambda>dz.
     Inr (py_pow_half (dx + dy + dz)))))))))"

subsection \<open>The gesture classifier: recognize_gesture\<close>

definition is_finger_extended :: "landmark list \<Rightarrow> nat \<Rightarrow> nat \<Rightarrow> py_error + bool" where
  "is_finger_extended landmarks tip_id base_id =
     bindE (py_index landmarks tip_id) (\<lambda>tip.
     bindE (py_getitem tip ''y'') (\<lambda>tip_y.
     bindE (py_index landmarks base_id) (\<lambda>base.
     bindE (py_getitem base ''y'') (\<lambda>base_y.
     Inr (tip_y < base_y)))))"

text \<open>
  The thumb test subtracts two floats and compares with the literal 0.05. Here the
  difference and the literal are exact reals, so for a difference within rounding of 0.05
  the flag of the model may differ from the program's; a difference of at most 0.05 gives
  \<open>False\<close> in both.
\<close>

definition is_thumb_extended :: "landmark list \<Rightarrow> py_error + bool" where
  "is_thumb_extended landmarks =
     bindE (py_index landmarks 4) (\<lambda>tip.
     bindE (py_getitem tip ''x'') (\<lambda>tx.
     bindE (py_index landmarks 2) (\<lambda>base.
     bindE (py_getitem base ''x'') (\<lambda>bx.
     Inr (\<bar>tx - bx\<bar> > 0.05)))))"

text \<open>The rule cascade of the source, after the five flags are known, in its order.\<close>

definition gesture_rules ::
  "landmark list \<Rightarrow> bool \<Rightarrow> bool \<Rightarrow> bool \<Rightarrow> bool \<Rightarrow> bool \<Rightarrow> py_error + string" where
  "gesture_rules landmarks thumb index middle ring pinky =
     (if \<not> (index \<or> middle \<or> ring \<or> pinky) then
        (if thumb then Inr ''THUMBS_UP'' else Inr ''FIST'')
      else if index \<and> middle \<and> \<not> ring \<and> \<not> pinky then Inr ''VICTORY''
      else if index \<and> \<not> middle \<and> \<not> ring \<and> \<not> pinky then Inr ''POINT''
      else if thumb \<and> index \<and> middle \<and> ring \<and> pinky then Inr ''OPEN''
      else if index \<and> middle \<and> ring \<and> \<not> pinky then Inr ''THREE''
      else if \<not> index \<and> \<not> middle \<and> \<not> ring \<and> pinky then Inr ''PINKY''
      else if thumb \<and> pinky \<and> \<not> index \<and> \<not> middle \<and> \<not> ring then Inr ''ROCK''
      else
        bindE (py_index landmarks 4) (\<lambda>l4.
        bindE (py_index landmarks 8) (\<lambda>l8.
        bindE (calculate_distance l4 l8) (\<lambda>pinch_dist.
        if pinch_dist < 0.05 then Inr ''PINCH'' else Inr ''OPEN''))))"

definition recognize_gesture :: "landmark list \<Rightarrow> py_error + string" where
  "recognize_gesture landmarks =
     (if length landmarks < 21 then Inr ''UNKNOWN''
      else
        bindE (is_thumb_extended landmarks) (\<lambda>thumb.
        bindE (is_finger_extended landmarks 8 5) (\<lambda>index.
        bindE (is_finger_extended landmarks 12 9) (\<lambda>middle.
        bindE (is_finger_extended landmarks 16 13) (\<lambda>ring.
        bindE (is_finger_extended landmarks 20 17) (\<lambda>pinky.
        gesture_rules landmarks thumb index middle ring pinky))))))"

subsection \<open>The decision table of the specification\<close>

text \<open>
  The specification's words, for comparison with the source: a non-thumb finger is
  extended iff its tip's \<open>y\<close> is strictly less than its base's, the thumb iff the
  horizontal distance between landmarks 4 and 2 exceeds 0.05; eight rows are tried in
  order and the first match wins; when no row matches, the label is \<open>PINCH\<close> if the
  distance between landmarks 4 and 8 is below 0.05 and \<open>OPEN\<close> otherwise.
\<close>

definition has_xy :: "landmark \<Rightarrow> bool" where
  "has_xy lm \<longleftrightarrow> lm ''x'' \<noteq> None \<and> lm ''y'' \<noteq> None"

definition spec_finger_extended :: "landmark list \<Rightarrow> nat \<Rightarrow> nat \<Rightarrow> bool" where
  "spec_finger_extended lms tip base \<longleftrightarrow> the ((lms ! tip) ''y'') < the ((lms ! base) ''y'')"

definition spec_thumb_extended :: "landmark list \<Rightarrow> bool" where
  "spec_thumb_extended lms \<longleftrightarrow> \<bar>the ((lms ! 4) ''x'') - the ((lms ! 2) ''x'')\<bar> > 0.05"

type_synonym table_row = "(bool \<Rightarrow> bool \<Rightarrow> bool \<Rightarrow> bool \<Rightarrow> bool \<Rightarrow> bool) \<times> string"

text \<open>The arguments of a row's condition: thumb, index, middle, ring, pinky.\<close>

definition decision_table :: "table_row list" where
  "decision_table =
    [(\<lambda>t i m r p. \<not> i \<and> \<not> m \<and> \<not> r \<and> \<not> p \<and> t, ''THUMBS_UP''),
     (\<lambda>t i m r p. \<not> i \<and> \<not> m \<and> \<not> r \<and> \<not> p \<and> \<not> t, ''FIST''),
     (\<lambda>t i m r p. i \<and> m \<and> \<not> r \<and> \<not> p, ''VICTORY''),
     (\<lambda>t i m r p. i \<and> \<not> m \<and> \<not> r \<and> \<not> p, ''POINT''),
     (\<lambda>t i m r p. t \<and> i \<and> m \<and> r \<and> p, ''OPEN''),
     (\<lambda>t i m r p. i \<and> m \<and> r \<and> \<not> p, ''THREE''),
     (\<lambda>t i m r p. \<not> i \<and> \<not> m \<and> \<not> r \<and> p, ''PINKY''),
     (\<lambda>t i m r p. t \<and> p \<and> \<not> i \<and> \<not> m \<and> \<not> r, ''ROCK'')]"

fun first_match ::
  "table_row list \<Rightarrow> bool \<Rightarrow> bool \<Rightarrow> bool \<Rightarrow> bool \<Rightarrow> bool \<Rightarrow> string option" where
  "first_match [] t i m r p = None"
| "first_match ((c, l) # rows) t i m r p =
     (if c t i m r p then Some l else first_match rows t i m r p)"

definition matched_row :: "landmark list \<Rightarrow> string option" where
  "matched_row lms =
     first_match decision_table (spec_thumb_extended lms)
       (spec_finger_extended lms 8 5) (spec_finger_extended lms 12 9)
       (spec_finger_extended lms 16 13) (spec_finger_extended lms 20 17)"


text \<open>
  The cascade of the source written with the table, for the proofs: at rule 8 it calls the
  source's \<open>calculate_distance\<close> and passes its exception on. It is not the
  specification's table, whose distance is total: that is \<open>table_label\<close> below.
\<close>

definition cascade_form :: "landmark list \<Rightarrow> py_error + string" where
  "cascade_form lms =
     (case matched_row lms of
        Some l \<Rightarrow> Inr l
      | None \<Rightarrow>
          (case calculate_distance (lms ! 4) (lms ! 8) of
             Inl e \<Rightarrow> Inl e
           | Inr d \<Rightarrow> Inr (if d < 0.05 then ''PINCH'' else ''OPEN'')))"

text \<open>The Euclidean distance of the specification, a missing \<open>z\<close> read as 0.\<close>

definition distance3D :: "landmark \<Rightarrow> landmark \<Rightarrow> real" where
  "distance3D p1 p2 =
     sqrt ((py_get p1 ''x'' 0 - py_get p2 ''x'' 0)\<^sup>2 + (py_get p1 ''y'' 0 - py_get p2 ''y'' 0)\<^sup>2
           + (py_get p1 ''z'' 0 - py_get p2 ''z'' 0)\<^sup>2)"


definition gesture_labels :: "string set" where
  "gesture_labels = {''FIST'', ''OPEN'', ''POINT'', ''VICTORY'', ''THUMBS_UP'', ''THREE'',
                     ''PINKY'', ''ROCK'', ''PINCH'', ''UNKNOWN''}"

text \<open>
  A bound on coordinates under which no square overflows: twice the bound, squared,
  stays below the overflow threshold.
\<close>

definition coord_bound :: real where
  "coord_bound = 2 ^ 510"

definition coords_bounded :: "landmark \<Rightarrow> bool" where
  "coords_bounded lm \<longleftrightarrow>
     \<bar>py_get lm ''x'' 0\<bar> \<le> coord_bound \<and> \<bar>py_get lm ''y'' 0\<bar> \<le> coord_bound
     \<and> \<bar>py_get lm ''z'' 0\<bar> \<le> coord_bound"

subsection \<open>Concrete hands\<close>

definition lm_xyz :: "real \<Rightarrow> real \<Rightarrow> real \<Rightarrow> landmark" where
  "lm_xyz x y z = [''x'' \<mapsto> x, ''y'' \<mapsto> y, ''z'' \<mapsto> z]"

definition rest_lm :: landmark where
  "rest_lm = lm_xyz 0.5 0.5 0"

definition raised_lm :: landmark where
  "raised_lm = lm_xyz 0.5 0.3 0"

definition deep_lm :: landmark where
  "deep_lm = lm_xyz 0.5 0.5 (10 ^ 200)"

definition near_lm :: landmark where
  "near_lm = lm_xyz 0.5 0.5 0.03"


text \<open>Index and middle raised.\<close>

definition victory_hand :: "landmark list" where
  "victory_hand = (replicate 21 rest_lm)[8 := raised_lm, 12 := raised_lm]"

text \<open>No finger raised, thumb tip and index tip 0.03 apart.\<close>

definition closed_hand :: "landmark list" where
  "closed_hand = (replicate 21 rest_lm)[4 := near_lm]"

text \<open>Only the middle finger raised, thumb tip and index tip 0.03 apart.\<close>

definition pinch_hand :: "landmark list" where
  "pinch_hand = (replicate 21 rest_lm)[4 := near_lm, 12 := raised_lm]"

text \<open>Only the middle finger raised, the thumb tip at depth \<open>10 ^ 200\<close>.\<close>

definition overflow_hand :: "landmark list" where
  "overflow_hand = (replicate 21 rest_lm)[4 := deep_lm, 12 := raised_lm]"



subsection \<open>External detectors\<close>

text \<open>
  The detection libraries (FER, MediaPipe) and OpenCV are outside the repository. A call
  into them on a frame either raises or returns; what it returns is modelled as far as the
  source reads it. A module-level detector handle is \<open>None\<close> when the library is missing
  or its constructor failed, and is passed to the facade that reads it.
\<close>

datatype 'a outcome = Raises | Returns 'a

text \<open>A MediaPipe landmark object: attributes \<open>x\<close>, \<open>y\<close>, \<open>z\<close>, \<open>visibility\<close>.\<close>

record raw_landmark =
  raw_x :: real
  raw_y :: real
  raw_z :: real
  raw_visibility :: real

text \<open>A Python dictionary with string keys, in insertion order (keys distinct).\<close>

type_synonym 'v pydict = "(string \<times> 'v) list"

text \<open>The \<open>{"x": .., "y": ..}\<close> dictionary of a named keypoint.\<close>

definition point_dict :: "real \<Rightarrow> real \<Rightarrow> landmark" where
  "point_dict x y = [''x'' \<mapsto> x, ''y'' \<mapsto> y]"

text \<open>\<^verbatim>\<open>{"x": landmarks[i]["x"], "y": landmarks[i]["y"]}\<close>\<close>

definition keypoint :: "landmark list \<Rightarrow> nat \<Rightarrow> py_error + landmark" where
  "keypoint landmarks i =
     bindE (py_index landmarks i) (\<lambda>l1.
     bindE (py_getitem l1 ''x'') (\<lambda>x.
     bindE (py_index landmarks i) (\<lambda>l2.
     bindE (py_getitem l2 ''y'') (\<lambda>y.
     Inr (point_dict x y)))))"

text \<open>\<^verbatim>\<open>landmarks[i][k]\<close>\<close>

definition coord :: "landmark list \<Rightarrow> nat \<Rightarrow> string \<Rightarrow> py_error + real" where
  "coord landmarks i k = bindE (py_index landmarks i) (\<lambda>l. py_getitem l k)"

subsection \<open>analyze_emotion\<close>

type_synonym emotions = "real pydict"

text \<open>One entry of FER's result list: a dictionary that should hold \<open>emotions\<close>.\<close>

type_synonym fer_face = "string \<rightharpoonup> emotions"

record emotion_result =
  emotion :: string
  confidence :: real
  all_emotions :: emotions

text \<open>
  \<^verbatim>\<open>max(emotions, key=emotions.get)\<close>: the first key whose score no later key exceeds;
  \<^verbatim>\<open>ValueError\<close> on an empty dictionary.
\<close>

fun max_from :: "('a \<Rightarrow> real) \<Rightarrow> 'a \<Rightarrow> 'a list \<Rightarrow> 'a" where
  "max_from score best [] = best"
| "max_from score best (k # ks) =
     max_from score (if score k > score best then k else best) ks"

definition py_max_key :: "emotions \<Rightarrow> py_error + string" where
  "py_max_key emotions =
     (case map fst emotions of
        [] \<Rightarrow> Inl ValueError
      | k # ks \<Rightarrow> Inr (max_from (\<lambda>k. the (map_of emotions k)) k ks))"

definition unknown_emotion :: emotion_result where
  "unknown_emotion = \<lparr>emotion = ''unknown'', confidence = 0, all_emotions = []\<rparr>"

definition neutral_emotion :: emotion_result where
  "neutral_emotion = \<lparr>emotion = ''neutral'', confidence = 0, all_emotions = []\<rparr>"

text \<open>
  The body of the \<open>try\<close>: \<open>Inl\<close> an exception, \<open>Inr None\<close> when control leaves the
  \<open>if\<close> without returning, \<open>Inr (Some r)\<close> a returned result.
\<close>

definition emotion_try :: "('img \<Rightarrow> fer_face list outcome) \<Rightarrow> 'img \<Rightarrow> py_error + emotion_result option" where
  "emotion_try detect_emotions img =
     (case detect_emotions img of
        Raises \<Rightarrow> Inl DetectorFailure
      | Returns result \<Rightarrow>
          (case result of
             [] \<Rightarrow> Inr None
           | face # _ \<Rightarrow>
               bindE (py_getitem face ''emotions'') (\<lambda>emotions.
               bindE (py_max_key emotions) (\<lambda>dominant.
               bindE (py_getitem (map_of emotions) dominant) (\<lambda>score.
               Inr (Some \<lparr>emotion = dominant, confidence = score,
                          all_emotions = emotions\<rparr>))))))"

definition analyze_emotion :: "('img \<Rightarrow> fer_face list outcome) option \<Rightarrow> 'img \<Rightarrow> emotion_result" where
  "analyze_emotion emotion_detector img =
     (case emotion_detector of
        None \<Rightarrow> unknown_emotion
      | Some detect_emotions \<Rightarrow>
          (case emotion_try detect_emotions img of
             Inr (Some r) \<Rightarrow> r
           | Inr None \<Rightarrow> neutral_emotion
           | Inl e \<Rightarrow> neutral_emotion))"

subsection \<open>analyze_pose\<close>

text \<open>
  The result dictionary: \<open>detected\<close>, \<open>landmarks\<close>, and the named keypoints that are
  keys of it, each a point or \<open>None\<close>. The empty result has no named key.
\<close>

record pose_result =
  pose_detected :: bool
  pose_landmarks :: "landmark list"
  pose_named :: "landmark option pydict"

definition pose_landmark_dict :: "nat \<Rightarrow> raw_landmark \<Rightarrow> landmark" where
  "pose_landmark_dict idx l =
     [''id'' \<mapsto> real idx, ''x'' \<mapsto> raw_x l, ''y'' \<mapsto> raw_y l, ''z'' \<mapsto> raw_z l,
      ''visibility'' \<mapsto> raw_visibility l]"

definition empty_pose :: pose_result where
  "empty_pose = \<lparr>pose_detected = False, pose_landmarks = [], pose_named = []\<rparr>"

text \<open>\<^verbatim>\<open>{..} if len(landmarks) > i else None\<close>\<close>

definition keypoint_if_covered :: "landmark list \<Rightarrow> nat \<Rightarrow> py_error + landmark option" where
  "keypoint_if_covered landmarks i =
     (if length landmarks > i then bindE (keypoint landmarks i) (\<lambda>p. Inr (Some p))
      else Inr None)"

definition pose_try :: "('img \<Rightarrow> raw_landmark list option outcome) \<Rightarrow> 'img \<Rightarrow> py_error + pose_result option" where
  "pose_try process img =
     (case process img of
        Raises \<Rightarrow> Inl DetectorFailure
      | Returns None \<Rightarrow> Inr None
      | Returns (Some raw) \<Rightarrow>
          (let landmarks = map (\<lambda>(idx, l). pose_landmark_dict idx l) (enumerate 0 raw) in
           bindE (keypoint landmarks 0) (\<lambda>nose.
           bindE (keypoint_if_covered landmarks 15) (\<lambda>left_hand.
           bindE (keypoint_if_covered landmarks 16) (\<lambda>right_hand.
           bindE (keypoint landmarks 11) (\<lambda>left_shoulder.
           bindE (keypoint landmarks 12) (\<lambda>right_shoulder.
           bindE (keypoint_if_covered landmarks 23) (\<lambda>left_hip.
           bindE (keypoint_if_covered landmarks 24) (\<lambda>right_hip.
           Inr (Some \<lparr>pose_detected = True, pose_landmarks = landmarks,
                      pose_named =
                        [(''nose'', Some nose), (''left_hand'', left_hand),
                         (''right_hand'', right_hand), (''left_shoulder'', Some left_shoulder),
                         (''right_shoulder'', Some right_shoulder), (''left_hip'', left_hip),
                         (''right_hip'', right_hip)]\<rparr>))))))))))"

definition analyze_pose :: "('img \<Rightarrow> raw_landmark list option outcome) option \<Rightarrow> 'img \<Rightarrow> pose_result" where
  "analyze_pose pose_detector img =
     (case pose_detector of
        None \<Rightarrow> empty_pose
      | Some process \<Rightarrow>
          (case pose_try process img of
             Inr (Some r) \<Rightarrow> r
           | Inr None \<Rightarrow> empty_pose
           | Inl e \<Rightarrow> empty_pose))"

subsection \<open>analyze_face_mesh\<close>

record face_features =
  mouth_open :: bool
  left_eye_open :: bool
  right_eye_open :: bool
  eyebrows_raised :: bool
  face_center :: landmark
  nose_tip :: landmark
  chin :: landmark
  left_eye :: landmark
  right_eye :: landmark
  mouth_center :: landmark

record face_result =
  face_detected :: bool
  face_landmark_count :: "nat option"
  face_landmarks :: "landmark list"
  features :: "face_features option"

definition landmark_dict :: "nat \<Rightarrow> raw_landmark \<Rightarrow> landmark" where
  "landmark_dict idx l =
     [''id'' \<mapsto> real idx, ''x'' \<mapsto> raw_x l, ''y'' \<mapsto> raw_y l, ''z'' \<mapsto> raw_z l]"

definition empty_face :: face_result where
  "empty_face = \<lparr>face_detected = False, face_landmark_count = None, face_landmarks = [],
                  features = None\<rparr>"

definition face_try :: "('img \<Rightarrow> raw_landmark list list option outcome) \<Rightarrow> 'img \<Rightarrow> py_error + face_result option" where
  "face_try process img =
     (case process img of
        Raises \<Rightarrow> Inl DetectorFailure
      | Returns None \<Rightarrow> Inr None
      | Returns (Some []) \<Rightarrow> Inr None
      | Returns (Some (face # _)) \<Rightarrow>
          (let landmarks = map (\<lambda>(idx, l). landmark_dict idx l) (enumerate 0 face) in
           bindE (coord landmarks 13 ''y'') (\<lambda>y13.
           bindE (coord landmarks 14 ''y'') (\<lambda>y14.
           bindE (coord landmarks 159 ''y'') (\<lambda>y159.
           bindE (coord landmarks 145 ''y'') (\<lambda>y145.
           bindE (coord landmarks 386 ''y'') (\<lambda>y386.
           bindE (coord landmarks 374 ''y'') (\<lambda>y374.
           bindE (coord landmarks 70 ''y'') (\<lambda>left_brow.
           bindE (coord landmarks 300 ''y'') (\<lambda>right_brow.
           bindE (keypoint landmarks 1) (\<lambda>center.
           bindE (keypoint landmarks 4) (\<lambda>nose.
           bindE (keypoint landmarks 152) (\<lambda>chin_pt.
           bindE (keypoint landmarks 33) (\<lambda>leye.
           bindE (keypoint landmarks 263) (\<lambda>reye.
           bindE (coord landmarks 13 ''x'') (\<lambda>x13.
           bindE (coord landmarks 14 ''x'') (\<lambda>x14.
           bindE (coord landmarks 13 ''y'') (\<lambda>my13.
           bindE (coord landmarks 14 ''y'') (\<lambda>my14.
           Inr (Some \<lparr>face_detected = True,
                      face_landmark_count = Some (length landmarks),
                      face_landmarks = take 50 landmarks,
                      features = Some
                        \<lparr>mouth_open = (\<bar>y13 - y14\<bar> > 0.03),
                         left_eye_open = (\<bar>y159 - y145\<bar> > 0.015),
                         right_eye_open = (\<bar>y386 - y374\<bar> > 0.015),
                         eyebrows_raised = (left_brow < 0.25 \<or> right_brow < 0.25),
                         face_center = center, nose_tip = nose, chin = chin_pt,
                         left_eye = leye, right_eye = reye,
                         mouth_center = point_dict ((x13 + x14) / 2) ((my13 + my14) / 2)\<rparr>\<rparr>
               ))))))))))))))))))))"

definition analyze_face_mesh :: "('img \<Rightarrow> raw_landmark list list option outcome) option \<Rightarrow> 'img \<Rightarrow> face_result" where
  "analyze_face_mesh face_mesh_detector img =
     (case face_mesh_detector of
        None \<Rightarrow> empty_face
      | Some process \<Rightarrow>
          (case face_try process img of
             Inr (Some r) \<Rightarrow> r
           | Inr None \<Rightarrow> empty_face
           | Inl e \<Rightarrow> empty_face))"

subsection \<open>analyze_hands\<close>

text \<open>
  What the hand detector returns: the landmark lists of the hands found, and the parallel
  handedness channel (per hand, the labels of its classification list).
\<close>

record hands_output =
  multi_hand_landmarks :: "raw_landmark list list option"
  multi_handedness :: "string list list option"

record hand =
  handedness :: string
  hand_landmarks :: "landmark list"
  gesture :: string
  palm_center :: landmark
  index_tip :: landmark
  thumb_tip :: landmark
  pinch_distance :: real

record hands_result =
  hands_detected :: bool
  hand_count :: "nat option"
  hands :: "hand list"

definition empty_hands :: hands_result where
  "empty_hands = \<lparr>hands_detected = False, hand_count = None, hands = []\<rparr>"

definition hand_entry :: "hands_output \<Rightarrow> nat \<Rightarrow> raw_landmark list \<Rightarrow> py_error + hand" where
  "hand_entry results hand_idx raw =
     (let landmarks = map (\<lambda>(idx, l). landmark_dict idx l) (enumerate 0 raw) in
      bindE (recognize_gesture landmarks) (\<lambda>g.
      bindE (case multi_handedness results of
               None \<Rightarrow> Inr ''Unknown''
             | Some [] \<Rightarrow> Inr ''Unknown''
             | Some hs \<Rightarrow> bindE (py_index hs hand_idx) (\<lambda>classification.
                            py_index classification 0)) (\<lambda>label.
      bindE (keypoint landmarks 0) (\<lambda>palm.
      bindE (keypoint landmarks 8) (\<lambda>itip.
      bindE (keypoint landmarks 4) (\<lambda>ttip.
      bindE (py_index landmarks 4) (\<lambda>l4.
      bindE (py_index landmarks 8) (\<lambda>l8.
      bindE (calculate_distance l4 l8) (\<lambda>d.
      Inr \<lparr>handedness = label, hand_landmarks = landmarks, gesture = g,
           palm_center = palm, index_tip = itip, thumb_tip = ttip,
           pinch_distance = d\<rparr>)))))))))"

fun hands_loop :: "hands_output \<Rightarrow> nat \<Rightarrow> raw_landmark list list \<Rightarrow> py_error + hand list" where
  "hands_loop results hand_idx [] = Inr []"
| "hands_loop results hand_idx (raw # rest) =
     bindE (hand_entry results hand_idx raw) (\<lambda>h.
     bindE (hands_loop results (Suc hand_idx) rest) (\<lambda>hs.
     Inr (h # hs)))"

definition hands_try :: "('img \<Rightarrow> hands_output outcome) \<Rightarrow> 'img \<Rightarrow> py_error + hands_result" where
  "hands_try process img =
     (case process img of
        Raises \<Rightarrow> Inl DetectorFailure
      | Returns results \<Rightarrow>
          bindE (hands_loop results 0
                   (case multi_hand_landmarks results of None \<Rightarrow> [] | Some hl \<Rightarrow> hl)) (\<lambda>hs.
          Inr \<lparr>hands_detected = (length hs > 0), hand_count = Some (length hs),
               hands = hs\<rparr>))"

definition analyze_hands :: "('img \<Rightarrow> hands_output outcome) option \<Rightarrow> 'img \<Rightarrow> hands_result" where
  "analyze_hands hand_detector img =
     (case hand_detector of
        None \<Rightarrow> empty_hands
      | Some process \<Rightarrow>
          (case hands_try process img of
             Inr r \<Rightarrow> r
           | Inl e \<Rightarrow> empty_hands))"

subsection \<open>JSON messages\<close>

text \<open>
  What \<^verbatim>\<open>receive_json\<close> hands to the handler: a parsed JSON value. An object is its
  items in order, keys distinct. A JSON float is taken as finite.
\<close>

datatype json =
    JNull | JBool bool | JInt int | JFloat real | JStr string
  | JArr "json list" | JObj "json pydict"

text \<open>\<^verbatim>\<open>data.get(k, default)\<close>: only a dictionary has \<open>get\<close>.\<close>

definition dict_get :: "json \<Rightarrow> string \<Rightarrow> json \<Rightarrow> py_error + json" where
  "dict_get data k dflt =
     (case data of
        JObj items \<Rightarrow> Inr (py_get (map_of items) k dflt)
      | _ \<Rightarrow> Inl AttributeError)"

text \<open>Python's truth value of a parsed JSON value.\<close>

fun truthy :: "json \<Rightarrow> bool" where
  "truthy JNull = False"
| "truthy (JBool b) = b"
| "truthy (JInt n) = (n \<noteq> 0)"
| "truthy (JFloat r) = (r \<noteq> 0)"
| "truthy (JStr s) = (s \<noteq> [])"
| "truthy (JArr xs) = (xs \<noteq> [])"
| "truthy (JObj items) = (items \<noteq> [])"

subsection \<open>decode_base64_image\<close>

text \<open>
  \<^verbatim>\<open>data.split(',')[1]\<close> when \<open>data\<close> holds a comma: the piece between the first comma
  and the next. Base64 decoding, \<^verbatim>\<open>Image.open\<close> and the colour conversion are the
  parameter \<open>decode_bytes\<close>, \<open>None\<close> when one of them raises. The handler passes whatever
  the message holds under \<open>data\<close>; on a value that is not a string the membership test
  or the call that follows it raises.
\<close>

definition second_piece :: "string \<Rightarrow> string" where
  "second_piece s =
     takeWhile (\<lambda>c. c \<noteq> CHR '','') (tl (dropWhile (\<lambda>c. c \<noteq> CHR '','') s))"

definition decode_base64_image :: "(string \<Rightarrow> 'img option) \<Rightarrow> json \<Rightarrow> py_error + 'img" where
  "decode_base64_image decode_bytes data =
     (case data of
        JStr s \<Rightarrow>
          (case decode_bytes (if CHR '','' \<in> set s then second_piece s else s) of
             None \<Rightarrow> Inl DecodeFailure
           | Some img \<Rightarrow> Inr img)
      | JArr xs \<Rightarrow> (if JStr '','' \<in> set xs then Inl AttributeError else Inl TypeError)
      | JObj items \<Rightarrow>
          (if '','' \<in> fst ` set items then Inl AttributeError else Inl TypeError)
      | _ \<Rightarrow> Inl TypeError)"

subsection \<open>Transport\<close>

text \<open>
  A connection is a handle. The network records every call of \<^verbatim>\<open>send_json\<close>
  (\<open>attempted\<close>, in order) and what reached each peer (\<open>delivered\<close>). Whether sending on
  a connection raises, and what, is the parameter \<open>send_error\<close>.
\<close>

type_synonym conn = nat

record analysis_response =
  resp_emotion :: "emotion_result option"
  resp_pose :: "pose_result option"
  resp_face_mesh :: "face_result option"
  resp_hands :: "hands_result option"

datatype out_msg =
    Connected bool bool bool
  | Analysis analysis_response
  | ErrorMsg py_error
  | Pong
  | Notice string

record network =
  attempted :: "(conn \<times> out_msg) list"
  delivered :: "conn \<Rightarrow> out_msg list"

definition send_json ::
  "(conn \<Rightarrow> py_error option) \<Rightarrow> conn \<Rightarrow> out_msg \<Rightarrow> network \<Rightarrow> py_error option \<times> network" where
  "send_json send_error ws msg net =
     (let net' = net\<lparr>attempted := attempted net @ [(ws, msg)]\<rparr> in
      case send_error ws of
        Some e \<Rightarrow> (Some e, net')
      | None \<Rightarrow> (None, net'\<lparr>delivered := (delivered net')(ws := delivered net' ws @ [msg])\<rparr>))"

subsection \<open>ConnectionManager\<close>

text \<open>
  \<open>last_pose\<close> starts as the empty dictionary, here \<open>None\<close>. The initial
  \<open>last_emotion\<close> of the source has no \<open>all_emotions\<close> key; the record has the field,
  here empty.
\<close>

record manager =
  active_connections :: "conn list"
  last_emotion :: emotion_result
  last_pose :: "pose_result option"
  last_beat :: "int \<times> bool"

definition init_manager :: manager where
  "init_manager =
     \<lparr>active_connections = [], last_emotion = neutral_emotion, last_pose = None,
      last_beat = (0, False)\<rparr>"

definition connect :: "manager \<Rightarrow> conn \<Rightarrow> manager" where
  "connect m ws = m\<lparr>active_connections := active_connections m @ [ws]\<rparr>"

definition disconnect :: "manager \<Rightarrow> conn \<Rightarrow> manager" where
  "disconnect m ws =
     (if ws \<in> set (active_connections m)
      then m\<lparr>active_connections := remove1 ws (active_connections m)\<rparr> else m)"

text \<open>The loop of \<open>broadcast\<close>: an exception of \<^verbatim>\<open>send_json\<close> is dropped.\<close>

fun broadcast_loop ::
  "(conn \<Rightarrow> py_error option) \<Rightarrow> conn list \<Rightarrow> out_msg \<Rightarrow> network \<Rightarrow> network" where
  "broadcast_loop send_error [] message net = net"
| "broadcast_loop send_error (connection # rest) message net =
     (case send_json send_error connection message net of
        (Some e, net') \<Rightarrow> broadcast_loop send_error rest message net'
      | (None, net') \<Rightarrow> broadcast_loop send_error rest message net')"

definition broadcast ::
  "(conn \<Rightarrow> py_error option) \<Rightarrow> manager \<Rightarrow> out_msg \<Rightarrow> network \<Rightarrow> network" where
  "broadcast send_error m message net =
     broadcast_loop send_error (active_connections m) message net"

subsection \<open>The session handler: websocket_endpoint\<close>

text \<open>The module-level state the handler reads: availability flags, detectors, decoder, transport.\<close>

record 'img env =
  FER_AVAILABLE :: bool
  MEDIAPIPE_AVAILABLE :: bool
  LIBROSA_AVAILABLE :: bool
  emotion_detector :: "('img \<Rightarrow> fer_face list outcome) option"
  pose_detector :: "('img \<Rightarrow> raw_landmark list option outcome) option"
  face_mesh_detector :: "('img \<Rightarrow> raw_landmark list list option outcome) option"
  hand_detector :: "('img \<Rightarrow> hands_output outcome) option"
  decode_bytes :: "string \<Rightarrow> 'img option"
  send_error :: "conn \<Rightarrow> py_error option"

text \<open>
  The body of the inner \<open>try\<close> up to the response: decode, then each requested analysis
  in the order of the source, \<open>last_emotion\<close> and \<open>last_pose\<close> assigned right after
  their analysis. \<open>items\<close> are the items of the message.
\<close>

definition frame_body ::
  "'img env \<Rightarrow> json pydict \<Rightarrow> manager \<Rightarrow> py_error + manager \<times> analysis_response" where
  "frame_body env items m =
     bindE (decode_base64_image (decode_bytes env) (py_get (map_of items) ''data'' (JStr []))) (\<lambda>img.
     let (m1, r_emotion) =
           (if truthy (py_get (map_of items) ''analyze_emotion'' (JBool False))
            then (let emotion_result = analyze_emotion (emotion_detector env) img
                  in (m\<lparr>last_emotion := emotion_result\<rparr>, Some emotion_result))
            else (m, None));
         (m2, r_pose) =
           (if truthy (py_get (map_of items) ''analyze_pose'' (JBool False))
            then (let pose_result = analyze_pose (pose_detector env) img
                  in (m1\<lparr>last_pose := Some pose_result\<rparr>, Some pose_result))
            else (m1, None));
         r_face =
           (if truthy (py_get (map_of items) ''analyze_face_mesh'' (JBool False))
            then Some (analyze_face_mesh (face_mesh_detector env) img) else None);
         r_hands =
           (if truthy (py_get (map_of items) ''analyze_hands'' (JBool True))
            then Some (analyze_hands (hand_detector env) img) else None)
     in Inr (m2, \<lparr>resp_emotion = r_emotion, resp_pose = r_pose, resp_face_mesh = r_face,
                  resp_hands = r_hands\<rparr>))"

text \<open>
  One turn of the \<open>while True\<close> loop after a message has arrived. The first component
  is the exception that leaves the turn, if any; the state is returned either way.
\<close>

definition handle_message ::
  "'img env \<Rightarrow> conn \<Rightarrow> json \<Rightarrow> manager \<times> network \<Rightarrow> py_error option \<times> manager \<times> network" where
  "handle_message env websocket data st =
     (case st of (m, net) \<Rightarrow>
     (case data of
        JObj items \<Rightarrow>
          (let msg_type = py_get (map_of items) ''type'' JNull in
           if msg_type = JStr ''frame'' then
             (case frame_body env items m of
                Inr (m', response) \<Rightarrow>
                  (case send_json (send_error env) websocket (Analysis response) net of
                     (None, net') \<Rightarrow> (None, m', net')
                   | (Some e, net') \<Rightarrow>
                       (case send_json (send_error env) websocket (ErrorMsg e) net' of
                          (r, net'') \<Rightarrow> (r, m', net'')))
              | Inl e \<Rightarrow>
                  (case send_json (send_error env) websocket (ErrorMsg e) net of
                     (r, net') \<Rightarrow> (r, m, net')))
           else if msg_type = JStr ''ping'' then
             (case send_json (send_error env) websocket Pong net of
                (r, net') \<Rightarrow> (r, m, net'))
           else (None, m, net))
      | _ \<Rightarrow> (Some AttributeError, m, net)))"

text \<open>
  What \<^verbatim>\<open>await websocket.receive_json()\<close> does: returns a value, raises on text that
  is not JSON, or raises \<^verbatim>\<open>WebSocketDisconnect\<close>.
\<close>

datatype recv = Received json | BadJson | Disconnected

datatype status = Awaiting | Closed

text \<open>
  The loop over what the client sends. When the list is used up the handler is
  suspended in \<^verbatim>\<open>receive_json\<close>: \<open>Awaiting\<close>. Any exception that leaves a turn goes to
  one of the two outer handlers, which both call \<open>disconnect\<close>; then the function returns.
\<close>

fun session_loop ::
  "'img env \<Rightarrow> conn \<Rightarrow> manager \<times> network \<Rightarrow> recv list \<Rightarrow> (manager \<times> network) \<times> status" where
  "session_loop env websocket (m, net) [] = ((m, net), Awaiting)"
| "session_loop env websocket (m, net) (Disconnected # evs) =
     ((disconnect m websocket, net), Closed)"
| "session_loop env websocket (m, net) (BadJson # evs) =
     ((disconnect m websocket, net), Closed)"
| "session_loop env websocket (m, net) (Received data # evs) =
     (case handle_message env websocket data (m, net) of
        (None, st) \<Rightarrow> session_loop env websocket st evs
      | (Some e, m', net') \<Rightarrow> ((disconnect m' websocket, net'), Closed))"

text \<open>The initial status message is sent outside the \<open>try\<close>.\<close>

definition websocket_endpoint ::
  "'img env \<Rightarrow> conn \<Rightarrow> manager \<times> network \<Rightarrow> recv list \<Rightarrow> (manager \<times> network) \<times> status" where
  "websocket_endpoint env websocket st evs =
     (case st of (m, net) \<Rightarrow>
      let m1 = connect m websocket in
     (case send_json (send_error env) websocket
             (Connected (FER_AVAILABLE env \<and> emotion_detector env \<noteq> None)
                        (MEDIAPIPE_AVAILABLE env \<and> pose_detector env \<noteq> None)
                        (LIBROSA_AVAILABLE env)) net of
        (None, net1) \<Rightarrow> session_loop env websocket (m1, net1) evs
      | (Some e, net1) \<Rightarrow> ((m1, net1), Closed)))"

subsection \<open>The beat stream: beats_websocket\<close>

text \<open>
  \<^verbatim>\<open>60.0 / tempo\<close> on what the message holds under \<open>tempo\<close>: an int is converted to a
  float first (and may be too large), a bool is an int, anything else but a float is a
  \<^verbatim>\<open>TypeError\<close>.
\<close>

definition sixty_over :: "json \<Rightarrow> py_error + real" where
  "sixty_over tempo =
     (case tempo of
        JInt n \<Rightarrow>
          (if dbl_overflows (real_of_int n) then Inl OverflowError
           else if n = 0 then Inl ZeroDivisionError else Inr (60 / real_of_int n))
      | JFloat r \<Rightarrow> (if r = 0 then Inl ZeroDivisionError else Inr (60 / r))
      | JBool b \<Rightarrow> (if b then Inr 60 else Inl ZeroDivisionError)
      | _ \<Rightarrow> Inl TypeError)"

text \<open>
  The start of the session, up to the loop: the tempo that the pulses will carry and the
  delay between them. An exception here ends the session before any pulse.
\<close>

definition beats_start :: "recv \<Rightarrow> py_error + json \<times> real" where
  "beats_start first =
     (case first of
        Disconnected \<Rightarrow> Inl WebSocketDisconnect
      | BadJson \<Rightarrow> Inl JSONDecodeError
      | Received data \<Rightarrow>
          bindE (dict_get data ''tempo'' (JInt 120)) (\<lambda>tempo.
          bindE (sixty_over tempo) (\<lambda>beat_interval.
          Inr (tempo, beat_interval))))"

subsection \<open>When a capability fails\<close>

text \<open>
  The failures of a detector call that the facades meet: the call raises, it returns
  nothing, or what it returns is too short for the indices the facade reads (malformed).
\<close>

definition emotion_capability_fails :: "('img \<Rightarrow> fer_face list outcome) \<Rightarrow> 'img \<Rightarrow> bool" where
  "emotion_capability_fails f img =
     (case f img of
        Raises \<Rightarrow> True
      | Returns [] \<Rightarrow> True
      | Returns (face # _) \<Rightarrow>
          (case face ''emotions'' of None \<Rightarrow> True | Some scores \<Rightarrow> scores = []))"

definition pose_capability_fails :: "('img \<Rightarrow> raw_landmark list option outcome) \<Rightarrow> 'img \<Rightarrow> bool" where
  "pose_capability_fails f img =
     (case f img of
        Raises \<Rightarrow> True
      | Returns None \<Rightarrow> True
      | Returns (Some raw) \<Rightarrow> length raw < 13)"

definition face_capability_fails :: "('img \<Rightarrow> raw_landmark list list option outcome) \<Rightarrow> 'img \<Rightarrow> bool" where
  "face_capability_fails f img =
     (case f img of
        Raises \<Rightarrow> True
      | Returns None \<Rightarrow> True
      | Returns (Some []) \<Rightarrow> True
      | Returns (Some (face # _)) \<Rightarrow> length face < 387)"

definition hands_capability_fails :: "('img \<Rightarrow> hands_output outcome) \<Rightarrow> 'img \<Rightarrow> bool" where
  "hands_capability_fails f img =
     (case f img of
        Raises \<Rightarrow> True
      | Returns results \<Rightarrow>
          (case multi_hand_landmarks results of
             None \<Rightarrow> False
           | Some found \<Rightarrow> list_ex (\<lambda>raw. length raw < 9) found))"

text \<open>
  A hand detector that returns and finds no hand is not among these: the hand facade then
  returns from inside its \<open>try\<close>, with a count of 0.
\<close>

definition hands_none_found :: "('img \<Rightarrow> hands_output outcome) \<Rightarrow> 'img \<Rightarrow> bool" where
  "hands_none_found f img =
     (case f img of
        Raises \<Rightarrow> False
      | Returns results \<Rightarrow>
          (case multi_hand_landmarks results of None \<Rightarrow> True | Some found \<Rightarrow> found = []))"

text \<open>A detector handle that is \<open>None\<close>, or whose call fails.\<close>

definition unavailable_or :: "('d \<Rightarrow> 'img \<Rightarrow> bool) \<Rightarrow> 'd option \<Rightarrow> 'img \<Rightarrow> bool" where
  "unavailable_or fails detector img =
     (case detector of None \<Rightarrow> True | Some f \<Rightarrow> fails f img)"

subsection \<open>Concrete detector results\<close>

definition raw0 :: raw_landmark where
  "raw0 = \<lparr>raw_x = 0.5, raw_y = 0.5, raw_z = 0, raw_visibility = 1\<rparr>"

text \<open>A pose detector that finds 10 landmarks, and one that finds 16.\<close>

definition pose10 :: "unit \<Rightarrow> raw_landmark list option outcome" where
  "pose10 img = Returns (Some (replicate 10 raw0))"

definition pose16 :: "unit \<Rightarrow> raw_landmark list option outcome" where
  "pose16 img = Returns (Some (replicate 16 raw0))"

definition fer_raises :: "unit \<Rightarrow> fer_face list outcome" where
  "fer_raises img = Raises"

definition mesh_short :: "unit \<Rightarrow> raw_landmark list list option outcome" where
  "mesh_short img = Returns (Some [replicate 100 raw0])"

definition hands_nothing :: "unit \<Rightarrow> hands_output outcome" where
  "hands_nothing img = Returns \<lparr>multi_hand_landmarks = None, multi_handedness = None\<rparr>"

definition hands_short :: "unit \<Rightarrow> hands_output outcome" where
  "hands_short img =
     Returns \<lparr>multi_hand_landmarks = Some [replicate 5 raw0], multi_handedness = None\<rparr>"

subsection \<open>Concrete sessions\<close>

definition net0 :: network where
  "net0 = \<lparr>attempted = [], delivered = (\<lambda>c. [])\<rparr>"

text \<open>Three registered sessions; sending to session 2 raises.\<close>

definition three_sessions :: manager where
  "three_sessions = init_manager\<lparr>active_connections := [1, 2, 3]\<rparr>"

definition second_broken :: "conn \<Rightarrow> py_error option" where
  "second_broken c = (if c = 2 then Some WebSocketDisconnect else None)"

text \<open>
  An emotion detector that finds a happy face on one frame and raises on the other;
  frames are told apart by what their data decodes to.
\<close>

definition happy_scores :: emotions where
  "happy_scores = [(''angry'', 0.1), (''happy'', 0.8), (''sad'', 0.1)]"

definition flaky_fer :: "bool \<Rightarrow> fer_face list outcome" where
  "flaky_fer img = (if img then Returns [[''emotions'' \<mapsto> happy_scores]] else Raises)"

definition flaky_env :: "bool env" where
  "flaky_env =
     \<lparr>FER_AVAILABLE = True, MEDIAPIPE_AVAILABLE = False, LIBROSA_AVAILABLE = False,
      emotion_detector = Some flaky_fer, pose_detector = None, face_mesh_detector = None,
      hand_detector = None, decode_bytes = (\<lambda>s. Some (s = ''good'')),
      send_error = (\<lambda>c. None)\<rparr>"

definition frame_items :: "string \<Rightarrow> json pydict" where
  "frame_items d =
     [(''type'', JStr ''frame''), (''data'', JStr d), (''analyze_emotion'', JBool True),
      (''analyze_pose'', JBool True), (''analyze_hands'', JBool False)]"

definition emotion_frame :: "string \<Rightarrow> json" where
  "emotion_frame d = JObj (frame_items d)"

definition chunk_items :: "json pydict" where
  "chunk_items = [(''type'', JStr ''audio_chunk''), (''data'', JStr ''AAAA'')]"

definition audio_chunk :: json where
  "audio_chunk = JObj chunk_items"

definition ping :: json where
  "ping = JObj [(''type'', JStr ''ping'')]"

section \<open>Properties\<close>

subsection \<open>Basic facts\<close>

lemma bindE_simps [simp]: "bindE (Inl e) f = Inl e" "bindE (Inr v) f = f v"
  by (simp_all add: bindE_def)

lemma py_index_nth: "i < length xs \<Longrightarrow> py_index xs i = Inr (xs ! i)"
  by (simp add: py_index_def)

lemma py_getitem_the: "d k \<noteq> None \<Longrightarrow> py_getitem d k = Inr (the (d k))"
  by (auto simp: py_getitem_def)

lemma Ball_list_update:
  "\<forall>x \<in> set xs. P x \<Longrightarrow> P v \<Longrightarrow> \<forall>x \<in> set (xs[i := v]). P x"
  using set_update_subset_insert [of xs i v] by auto

lemma lm_xyz_simps [simp]:
  "lm_xyz x y z ''x'' = Some x" "lm_xyz x y z ''y'' = Some y" "lm_xyz x y z ''z'' = Some z"
  by (simp_all add: lm_xyz_def)

lemma has_xy_lm_xyz [simp]: "has_xy (lm_xyz x y z)"
  by (simp add: has_xy_def)

subsection \<open>Floats within range\<close>

lemma coord_bound_facts:
  "0 \<le> coord_bound" "1 \<le> coord_bound" "2 * coord_bound < dbl_threshold"
  "(2 * coord_bound) * (2 * coord_bound) < dbl_threshold"
  by (simp_all add: coord_bound_def dbl_threshold_def)

lemma py_pow2_small:
  assumes "\<bar>d\<bar> \<le> 2 * coord_bound"
  shows "py_pow2 d = Inr (d * d)"
proof -
  have "\<bar>d * d\<bar> = \<bar>d\<bar> * \<bar>d\<bar>" by (simp add: abs_mult)
  also have "\<dots> \<le> (2 * coord_bound) * (2 * coord_bound)"
    using assms coord_bound_facts(1) by (intro mult_mono) simp_all
  finally have "\<bar>d * d\<bar> < dbl_threshold"
    using coord_bound_facts(4) by linarith
  then show ?thesis by (simp add: py_pow2_def dbl_overflows_def)
qed

lemma py_pow2_unit: "\<bar>d\<bar> \<le> 1 \<Longrightarrow> py_pow2 d = Inr (d * d)"
  using coord_bound_facts(2) by (intro py_pow2_small) linarith

lemma calculate_distance_bounded:
  assumes "has_xy p1" "has_xy p2" "coords_bounded p1" "coords_bounded p2"
  shows "calculate_distance p1 p2 = Inr (distance3D p1 p2)"
proof -
  obtain x1 y1 x2 y2 where v: "p1 ''x'' = Some x1" "p1 ''y'' = Some y1"
      "p2 ''x'' = Some x2" "p2 ''y'' = Some y2"
    using assms(1,2) by (auto simp: has_xy_def)
  have g: "py_get p1 ''x'' 0 = x1" "py_get p1 ''y'' 0 = y1"
      "py_get p2 ''x'' 0 = x2" "py_get p2 ''y'' 0 = y2"
    by (simp_all add: py_get_def v)
  have bx: "\<bar>x1 - x2\<bar> \<le> 2 * coord_bound" and by': "\<bar>y1 - y2\<bar> \<le> 2 * coord_bound"
    and bz: "\<bar>py_get p1 ''z'' 0 - py_get p2 ''z'' 0\<bar> \<le> 2 * coord_bound"
    using assms(3,4) unfolding coords_bounded_def g by linarith+
  show ?thesis
    unfolding calculate_distance_def distance3D_def g
    by (simp add: py_getitem_def v py_pow2_small [OF bx] py_pow2_small [OF by']
        py_pow2_small [OF bz] py_pow_half_def power2_eq_square)
qed

subsection \<open>The cascade is the table\<close>

lemma is_finger_extended_spec:
  assumes "tip < length lms" "base < length lms"
    and "has_xy (lms ! tip)" "has_xy (lms ! base)"
  shows "is_finger_extended lms tip base = Inr (spec_finger_extended lms tip base)"
  using assms
  by (simp add: is_finger_extended_def spec_finger_extended_def py_index_nth py_getitem_the
      has_xy_def)

lemma is_thumb_extended_spec:
  assumes "21 \<le> length lms" "has_xy (lms ! 4)" "has_xy (lms ! 2)"
  shows "is_thumb_extended lms = Inr (spec_thumb_extended lms)"
  using assms
  by (simp add: is_thumb_extended_def spec_thumb_extended_def py_index_nth py_getitem_the
      has_xy_def)

lemma gesture_rules_table:
  "gesture_rules lms t i m r p =
     (case first_match decision_table t i m r p of
        Some l \<Rightarrow> Inr l
      | None \<Rightarrow>
          bindE (py_index lms 4) (\<lambda>l4. bindE (py_index lms 8) (\<lambda>l8.
          bindE (calculate_distance l4 l8) (\<lambda>d.
            if d < 0.05 then Inr ''PINCH'' else Inr ''OPEN''))))"
  by (cases t; cases i; cases m; cases r; cases p)
     (simp_all add: gesture_rules_def decision_table_def)

lemma recognize_gesture_table:
  assumes len: "21 \<le> length lms" and xy: "\<forall>lm \<in> set lms. has_xy lm"
  shows "recognize_gesture lms = cascade_form lms"
proof -
  have h: "has_xy (lms ! k)" if "k < 21" for k
    using that len xy by simp
  have th: "is_thumb_extended lms = Inr (spec_thumb_extended lms)"
    using len h by (simp add: is_thumb_extended_spec)
  have fe: "is_finger_extended lms a b = Inr (spec_finger_extended lms a b)"
    if "a < 21" "b < 21" for a b
    using that len h by (simp add: is_finger_extended_spec)
  show ?thesis
    using len
    by (simp add: recognize_gesture_def cascade_form_def matched_row_def th fe
        gesture_rules_table py_index_nth bindE_def split: option.splits sum.splits)
qed

lemma first_match_labels:
  "first_match decision_table t i m r p = Some l \<Longrightarrow> l \<in> gesture_labels"
  by (cases t; cases i; cases m; cases r; cases p)
     (auto simp: decision_table_def gesture_labels_def)

lemma first_match_curled:
  "first_match decision_table t i False False False
     \<in> {Some ''FIST'', Some ''THUMBS_UP'', Some ''POINT''}"
  by (cases t; cases i) (simp_all add: decision_table_def)

subsection \<open>The concrete hands\<close>

lemma hands_length [simp]:
  "length victory_hand = 21" "length closed_hand = 21" "length pinch_hand = 21"
  "length overflow_hand = 21"
  by (simp_all add: victory_hand_def closed_hand_def pinch_hand_def overflow_hand_def)

lemma hands_has_xy:
  "\<forall>lm \<in> set victory_hand. has_xy lm" "\<forall>lm \<in> set closed_hand. has_xy lm"
  "\<forall>lm \<in> set pinch_hand. has_xy lm" "\<forall>lm \<in> set overflow_hand. has_xy lm"
  unfolding victory_hand_def closed_hand_def pinch_hand_def overflow_hand_def
  by (intro Ball_list_update; simp add: rest_lm_def raised_lm_def near_lm_def deep_lm_def)+

lemma near_distance: "calculate_distance near_lm rest_lm = Inr 0.03"
proof -
  have a: "py_pow2 (0.5 - 0.5) = Inr 0" "py_pow2 (0.03 - 0) = Inr (0.03 * 0.03)"
    by (simp_all add: py_pow2_unit)
  have b: "sqrt (0 + 0 + 0.03 * 0.03) = 0.03"
    by (rule real_sqrt_unique) (simp_all add: power2_eq_square)
  show ?thesis
    unfolding calculate_distance_def near_lm_def rest_lm_def
    by (simp only: py_getitem_def py_get_def lm_xyz_simps option.case a b bindE_simps
        py_pow_half_def)
qed

lemma deep_distance: "calculate_distance deep_lm rest_lm = Inl OverflowError"
proof -
  have a: "py_pow2 (0.5 - 0.5) = Inr 0"
    by (simp add: py_pow2_unit)
  have b: "py_pow2 (10 ^ 200 - 0) = Inl OverflowError"
    by (simp add: py_pow2_def dbl_overflows_def dbl_threshold_def)
  show ?thesis
    unfolding calculate_distance_def deep_lm_def rest_lm_def
    by (simp only: py_getitem_def py_get_def lm_xyz_simps option.case a b bindE_simps)
qed

lemma hands_nth:
  "closed_hand ! 4 = near_lm" "closed_hand ! 8 = rest_lm"
  "pinch_hand ! 4 = near_lm" "pinch_hand ! 8 = rest_lm"
  "overflow_hand ! 4 = deep_lm" "overflow_hand ! 8 = rest_lm"
  by (simp_all add: closed_hand_def pinch_hand_def overflow_hand_def)

lemma closed_hand_flags:
  "spec_finger_extended closed_hand 8 5 = False"
  "spec_finger_extended closed_hand 12 9 = False"
  "spec_finger_extended closed_hand 16 13 = False"
  "spec_finger_extended closed_hand 20 17 = False"
  "spec_thumb_extended closed_hand = False"
  by (simp_all add: closed_hand_def spec_finger_extended_def spec_thumb_extended_def
      rest_lm_def near_lm_def)

lemma pinch_hand_row: "matched_row pinch_hand = None"
  by (simp add: matched_row_def pinch_hand_def spec_finger_extended_def
      spec_thumb_extended_def rest_lm_def near_lm_def raised_lm_def decision_table_def)

lemma overflow_hand_row: "matched_row overflow_hand = None"
  by (simp add: matched_row_def overflow_hand_def spec_finger_extended_def
      spec_thumb_extended_def rest_lm_def deep_lm_def raised_lm_def decision_table_def)

lemma victory_hand_row: "matched_row victory_hand = Some ''VICTORY''"
  by (simp add: matched_row_def victory_hand_def spec_finger_extended_def
      spec_thumb_extended_def rest_lm_def raised_lm_def decision_table_def)

subsection \<open>Claims about the gesture classifier\<close>










text \<open>
  C6. On fewer than 21 landmarks \<open>recognize_gesture\<close> returns \<open>UNKNOWN\<close>, whatever the
  landmarks hold: no field is read, so nothing is raised.
\<close>

theorem recognize_gesture_short_unknown:
  "length lms < 21 \<Longrightarrow> recognize_gesture lms = Inr ''UNKNOWN''"
  by (simp add: recognize_gesture_def)

theorem recognize_gesture_short_unknown_witness:
  "length (replicate 20 (Map.empty :: landmark)) < 21
   \<and> recognize_gesture (replicate 20 Map.empty) = Inr ''UNKNOWN''"
  using recognize_gesture_short_unknown [of "replicate 20 Map.empty"] by simp

text \<open>
  C4, as stated, fails: with no finger raised and the thumb tip 0.03 from the index tip,
  the first row that matches is \<open>FIST\<close>; the distance test is never reached.
\<close>

theorem pinch_closed_hand_counterexample:
  "length closed_hand = 21
   \<and> is_finger_extended closed_hand 12 9 = Inr False
   \<and> is_finger_extended closed_hand 16 13 = Inr False
   \<and> is_finger_extended closed_hand 20 17 = Inr False
   \<and> calculate_distance (closed_hand ! 4) (closed_hand ! 8) = Inr 0.03
   \<and> (0.03 :: real) < 0.05
   \<and> recognize_gesture closed_hand = Inr ''FIST''
   \<and> recognize_gesture closed_hand \<noteq> Inr ''PINCH''"
proof -
  have xy: "has_xy (closed_hand ! k)" if "k < 21" for k
    using that hands_has_xy(2) by simp
  have fe: "is_finger_extended closed_hand a b = Inr (spec_finger_extended closed_hand a b)"
    if "a < 21" "b < 21" for a b
    using that xy by (simp add: is_finger_extended_spec)
  have rg: "recognize_gesture closed_hand = Inr ''FIST''"
    by (simp add: recognize_gesture_table hands_has_xy cascade_form_def matched_row_def
        closed_hand_flags decision_table_def)
  show ?thesis
    by (simp add: fe closed_hand_flags hands_nth near_distance rg)
qed

text \<open>
  C4, amended. The distance of the example is 0.05. \<open>PINCH\<close> is the result when no row
  of the table matches and the distance between landmarks 4 and 8 is below 0.05. When
  middle, ring and pinky are not raised a row always matches, and the result is \<open>FIST\<close>,
  \<open>THUMBS_UP\<close> or \<open>POINT\<close>.
\<close>

theorem pinch_after_table:
  "calculate_distance (lm_xyz 0 0 0) (lm_xyz 0.03 0.04 0) = Inr 0.05
   \<and> (21 \<le> length lms \<and> (\<forall>lm \<in> set lms. has_xy lm) \<and> matched_row lms = None
        \<and> calculate_distance (lms ! 4) (lms ! 8) = Inr d \<and> d < 0.05
      \<longrightarrow> recognize_gesture lms = Inr ''PINCH'')
   \<and> (21 \<le> length lms \<and> (\<forall>lm \<in> set lms. has_xy lm)
        \<and> \<not> spec_finger_extended lms 12 9 \<and> \<not> spec_finger_extended lms 16 13
        \<and> \<not> spec_finger_extended lms 20 17
      \<longrightarrow> recognize_gesture lms \<in> {Inr ''FIST'', Inr ''THUMBS_UP'', Inr ''POINT''})"
proof (intro conjI impI)
  have a: "py_pow2 (0 - 0.03) = Inr (0.03 * 0.03)" "py_pow2 (0 - 0.04) = Inr (0.04 * 0.04)"
      "py_pow2 (0 - 0) = Inr 0"
    by (simp_all add: py_pow2_unit)
  have b: "sqrt (0.03 * 0.03 + 0.04 * 0.04 + 0) = 0.05"
    by (rule real_sqrt_unique) (simp_all add: power2_eq_square)
  show "calculate_distance (lm_xyz 0 0 0) (lm_xyz 0.03 0.04 0) = Inr 0.05"
    unfolding calculate_distance_def
    by (simp only: py_getitem_def py_get_def lm_xyz_simps option.case a b bindE_simps
        py_pow_half_def)
next
  assume "21 \<le> length lms \<and> (\<forall>lm \<in> set lms. has_xy lm) \<and> matched_row lms = None
        \<and> calculate_distance (lms ! 4) (lms ! 8) = Inr d \<and> d < 0.05"
  then show "recognize_gesture lms = Inr ''PINCH''"
    by (simp add: recognize_gesture_table cascade_form_def)
next
  assume h: "21 \<le> length lms \<and> (\<forall>lm \<in> set lms. has_xy lm)
        \<and> \<not> spec_finger_extended lms 12 9 \<and> \<not> spec_finger_extended lms 16 13
        \<and> \<not> spec_finger_extended lms 20 17"
  then have "matched_row lms \<in> {Some ''FIST'', Some ''THUMBS_UP'', Some ''POINT''}"
    using first_match_curled by (simp add: matched_row_def)
  with h show "recognize_gesture lms \<in> {Inr ''FIST'', Inr ''THUMBS_UP'', Inr ''POINT''}"
    by (auto simp: recognize_gesture_table cascade_form_def)
qed

theorem pinch_after_table_witness:
  "21 \<le> length pinch_hand \<and> matched_row pinch_hand = None
   \<and> calculate_distance (pinch_hand ! 4) (pinch_hand ! 8) = Inr 0.03
   \<and> recognize_gesture pinch_hand = Inr ''PINCH''
   \<and> 21 \<le> length closed_hand
   \<and> spec_finger_extended closed_hand 12 9 = False
   \<and> spec_finger_extended closed_hand 16 13 = False
   \<and> spec_finger_extended closed_hand 20 17 = False
   \<and> recognize_gesture closed_hand \<in> {Inr ''FIST'', Inr ''THUMBS_UP'', Inr ''POINT''}"
proof -
  have d: "calculate_distance (pinch_hand ! 4) (pinch_hand ! 8) = Inr 0.03"
    by (simp add: hands_nth near_distance)
  have "recognize_gesture pinch_hand = Inr ''PINCH''"
    using pinch_after_table [of pinch_hand "0.03"] hands_has_xy(3) pinch_hand_row d by simp
  moreover have
    "recognize_gesture closed_hand \<in> {Inr ''FIST'', Inr ''THUMBS_UP'', Inr ''POINT''}"
    using pinch_after_table [of closed_hand 0] hands_has_xy(2) closed_hand_flags by simp
  ultimately show ?thesis
    using d pinch_hand_row closed_hand_flags by simp
qed

text \<open>
  C10, as stated, fails: every landmark of this hand has numeric \<open>x\<close>, \<open>y\<close> and \<open>z\<close>,
  only the middle finger is raised, and the depth of the thumb tip is \<open>10 ^ 200\<close>; the
  square of the depth difference is out of range and \<open>calculate_distance\<close> raises.
\<close>

theorem recognize_gesture_overflow_counterexample:
  "length overflow_hand = 21
   \<and> list_all has_xy overflow_hand
   \<and> recognize_gesture overflow_hand = Inl OverflowError"
proof -
  have "recognize_gesture overflow_hand = Inl OverflowError"
    by (simp add: recognize_gesture_table hands_has_xy cascade_form_def overflow_hand_row
        hands_nth deep_distance)
  then show ?thesis
    using hands_has_xy(4) by (simp add: list_all_iff)
qed

text \<open>
  C10, amended. When every landmark has its \<open>x\<close> and \<open>y\<close> and no coordinate exceeds
  \<open>2 ^ 510\<close> in magnitude (\<open>z\<close> may be absent, and is then 0), \<open>recognize_gesture\<close>
  returns, whatever the number of landmarks, and its result is one of the ten labels.
\<close>

theorem recognize_gesture_total_bounded:
  assumes "\<forall>lm \<in> set lms. has_xy lm \<and> coords_bounded lm"
  shows "\<exists>g. recognize_gesture lms = Inr g \<and> g \<in> gesture_labels"
proof (cases "length lms < 21")
  case True
  then show ?thesis by (simp add: recognize_gesture_def gesture_labels_def)
next
  case False
  then have len: "21 \<le> length lms" by simp
  have xy: "\<forall>lm \<in> set lms. has_xy lm" using assms by blast
  have "lms ! 4 \<in> set lms" "lms ! 8 \<in> set lms" using len by simp_all
  then have d: "calculate_distance (lms ! 4) (lms ! 8) = Inr (distance3D (lms ! 4) (lms ! 8))"
    using assms by (intro calculate_distance_bounded) blast+
  show ?thesis
    unfolding recognize_gesture_table [OF len xy] cascade_form_def d matched_row_def
    by (auto simp: gesture_labels_def dest: first_match_labels split: option.splits)
qed

theorem recognize_gesture_total_bounded_witness:
  "list_all has_xy pinch_hand \<and> list_all coords_bounded pinch_hand
   \<and> recognize_gesture pinch_hand = Inr ''PINCH'' \<and> ''PINCH'' \<in> gesture_labels
   \<and> (\<exists>g. recognize_gesture pinch_hand = Inr g \<and> g \<in> gesture_labels)"
proof -
  have small: "coords_bounded (lm_xyz x y z)" if "\<bar>x\<bar> \<le> 1" "\<bar>y\<bar> \<le> 1" "\<bar>z\<bar> \<le> 1" for x y z
    using that coord_bound_facts(2) by (simp add: coords_bounded_def py_get_def)
  have cb: "\<forall>lm \<in> set pinch_hand. coords_bounded lm"
    unfolding pinch_hand_def
    by (intro Ball_list_update; simp add: rest_lm_def raised_lm_def near_lm_def small)+
  have "\<forall>lm \<in> set pinch_hand. has_xy lm \<and> coords_bounded lm"
    using cb hands_has_xy(3) by blast
  from recognize_gesture_total_bounded [OF this]
  have ex: "\<exists>g. recognize_gesture pinch_hand = Inr g \<and> g \<in> gesture_labels" .
  have "recognize_gesture pinch_hand = Inr ''PINCH''"
    by (simp add: recognize_gesture_table hands_has_xy cascade_form_def pinch_hand_row
        hands_nth near_distance)
  then show ?thesis
    using ex cb hands_has_xy(3) by (simp add: list_all_iff gesture_labels_def)
qed

subsection \<open>The facades\<close>

lemma keypoint_pose:
  assumes "i < length raw"
  shows "keypoint (map (\<lambda>(idx, l). pose_landmark_dict idx l) (enumerate 0 raw)) i
         = Inr (point_dict (raw_x (raw ! i)) (raw_y (raw ! i)))"
  using assms
  by (simp add: keypoint_def py_index_def nth_enumerate_eq py_getitem_def
      pose_landmark_dict_def)

lemma keypoint_short:
  "length landmarks \<le> i \<Longrightarrow> keypoint landmarks i = Inl IndexError"
  by (simp add: keypoint_def py_index_def)

lemma coord_short:
  "length landmarks \<le> i \<Longrightarrow> coord landmarks i k = Inl IndexError"
  by (simp add: coord_def py_index_def)

lemma keypoint_if_covered_pose:
  "keypoint_if_covered (map (\<lambda>(idx, l). pose_landmark_dict idx l) (enumerate 0 raw)) i
   = Inr (if i < length raw then Some (point_dict (raw_x (raw ! i)) (raw_y (raw ! i))) else None)"
  by (simp add: keypoint_if_covered_def keypoint_pose)

lemma bindE_Inl_later:
  "(\<And>v. \<exists>e. f v = Inl e) \<Longrightarrow> \<exists>e. bindE m f = Inl e"
  by (cases m) simp_all

lemma bindE_Inl_now: "m = Inl e \<Longrightarrow> \<exists>e'. bindE m f = Inl e'"
  by simp

lemma pose_try_short:
  assumes "f img = Returns (Some raw)" "length raw < 13"
  shows "\<exists>e. pose_try f img = Inl e"
proof -
  define lms where "lms = map (\<lambda>(idx, l). pose_landmark_dict idx l) (enumerate 0 raw)"
  have "length lms \<le> 12" using assms(2) by (simp add: lms_def)
  then have k12: "keypoint lms 12 = Inl IndexError" by (rule keypoint_short)
  have "\<exists>e.
     bindE (keypoint lms 0) (\<lambda>nose.
     bindE (keypoint_if_covered lms 15) (\<lambda>left_hand.
     bindE (keypoint_if_covered lms 16) (\<lambda>right_hand.
     bindE (keypoint lms 11) (\<lambda>left_shoulder.
     bindE (keypoint lms 12) (\<lambda>right_shoulder.
     bindE (keypoint_if_covered lms 23) (\<lambda>left_hip.
     bindE (keypoint_if_covered lms 24) (\<lambda>right_hip.
     Inr (Some \<lparr>pose_detected = True, pose_landmarks = lms,
                pose_named =
                  [(''nose'', Some nose), (''left_hand'', left_hand),
                   (''right_hand'', right_hand), (''left_shoulder'', Some left_shoulder),
                   (''right_shoulder'', Some right_shoulder), (''left_hip'', left_hip),
                   (''right_hip'', right_hip)]\<rparr>)))))))) = Inl e"
    by (rule bindE_Inl_later, rule bindE_Inl_later, rule bindE_Inl_later,
        rule bindE_Inl_later, rule bindE_Inl_now [OF k12])
  then show ?thesis
    unfolding pose_try_def lms_def Let_def
    by (simp only: assms(1) outcome.case option.case)
qed

lemma pose_try_fails:
  assumes "pose_capability_fails f img"
  shows "pose_try f img = Inr None \<or> (\<exists>e. pose_try f img = Inl e)"
proof (cases "f img")
  case Raises
  then show ?thesis by (simp only: pose_try_def outcome.case) simp
next
  case (Returns r)
  show ?thesis
  proof (cases r)
    case None
    with Returns show ?thesis by (simp only: pose_try_def outcome.case option.case) simp
  next
    case (Some raw)
    with assms Returns have "length raw < 13"
      by (simp only: pose_capability_fails_def outcome.case option.case)
    with Returns Some show ?thesis
      using pose_try_short [of f img raw] by simp
  qed
qed

lemma analyze_pose_fails:
  assumes "unavailable_or pose_capability_fails detector img"
  shows "analyze_pose detector img = empty_pose"
proof (cases detector)
  case None
  then show ?thesis by (simp only: analyze_pose_def option.case)
next
  case (Some f)
  with assms have "pose_capability_fails f img"
    by (simp only: unavailable_or_def option.case)
  from pose_try_fails [OF this] show ?thesis
    unfolding Some analyze_pose_def by (auto simp only: option.case sum.case)
qed

lemma analyze_pose_covered:
  assumes "f img = Returns (Some raw)" "13 \<le> length raw"
  shows "analyze_pose (Some f) img =
     \<lparr>pose_detected = True,
      pose_landmarks = map (\<lambda>(idx, l). pose_landmark_dict idx l) (enumerate 0 raw),
      pose_named =
        [(''nose'', Some (point_dict (raw_x (raw ! 0)) (raw_y (raw ! 0)))),
         (''left_hand'', if 15 < length raw
            then Some (point_dict (raw_x (raw ! 15)) (raw_y (raw ! 15))) else None),
         (''right_hand'', if 16 < length raw
            then Some (point_dict (raw_x (raw ! 16)) (raw_y (raw ! 16))) else None),
         (''left_shoulder'', Some (point_dict (raw_x (raw ! 11)) (raw_y (raw ! 11)))),
         (''right_shoulder'', Some (point_dict (raw_x (raw ! 12)) (raw_y (raw ! 12)))),
         (''left_hip'', if 23 < length raw
            then Some (point_dict (raw_x (raw ! 23)) (raw_y (raw ! 23))) else None),
         (''right_hip'', if 24 < length raw
            then Some (point_dict (raw_x (raw ! 24)) (raw_y (raw ! 24))) else None)]\<rparr>"
proof -
  have k: "keypoint (map (\<lambda>(idx, l). pose_landmark_dict idx l) (enumerate 0 raw)) i
         = Inr (point_dict (raw_x (raw ! i)) (raw_y (raw ! i)))" if "i \<le> 12" for i
    using that assms(2) by (intro keypoint_pose) simp
  show ?thesis
    unfolding analyze_pose_def pose_try_def Let_def
    by (simp only: assms(1) option.case outcome.case k [of 0, simplified]
        k [of 11, simplified] k [of 12, simplified] keypoint_if_covered_pose bindE_simps
        sum.case)
qed

lemma emotion_try_fails:
  assumes "emotion_capability_fails f img"
  shows "emotion_try f img = Inr None \<or> (\<exists>e. emotion_try f img = Inl e)"
proof (cases "f img")
  case Raises
  then show ?thesis by (simp only: emotion_try_def outcome.case) simp
next
  case (Returns faces)
  show ?thesis
  proof (cases faces)
    case Nil
    with Returns show ?thesis by (simp only: emotion_try_def outcome.case list.case) simp
  next
    case (Cons face rest)
    with assms Returns
    have "face ''emotions'' = None \<or> face ''emotions'' = Some []"
      by (auto simp: emotion_capability_fails_def split: option.splits)
    then have "\<exists>e. bindE (py_getitem face ''emotions'') (\<lambda>emotions.
               bindE (py_max_key emotions) (\<lambda>dominant.
               bindE (py_getitem (map_of emotions) dominant) (\<lambda>score.
               Inr (Some \<lparr>emotion = dominant, confidence = score,
                          all_emotions = emotions\<rparr>)))) = Inl e"
      by (auto simp: py_getitem_def py_max_key_def)
    with Returns Cons show ?thesis
      by (simp only: emotion_try_def outcome.case list.case) simp
  qed
qed

lemma analyze_emotion_fails:
  assumes "emotion_capability_fails f img"
  shows "analyze_emotion (Some f) img = neutral_emotion"
  using emotion_try_fails [OF assms]
  unfolding analyze_emotion_def by (auto simp only: option.case sum.case)

lemma face_try_short:
  assumes "f img = Returns (Some (face # rest))" "length face < 387"
  shows "\<exists>e. face_try f img = Inl e"
proof -
  define lms where "lms = map (\<lambda>(idx, l). landmark_dict idx l) (enumerate 0 face)"
  have "length lms \<le> 386" using assms(2) by (simp add: lms_def)
  then have k: "coord lms 386 ''y'' = Inl IndexError" by (rule coord_short)
  show ?thesis
    unfolding face_try_def Let_def
    apply (simp only: assms(1) outcome.case option.case list.case)
    unfolding lms_def [symmetric]
    by (rule bindE_Inl_later, rule bindE_Inl_later, rule bindE_Inl_later,
        rule bindE_Inl_later, rule bindE_Inl_now [OF k])
qed

lemma face_try_fails:
  assumes "face_capability_fails f img"
  shows "face_try f img = Inr None \<or> (\<exists>e. face_try f img = Inl e)"
proof (cases "f img")
  case Raises
  then show ?thesis by (simp only: face_try_def outcome.case) simp
next
  case (Returns r)
  show ?thesis
  proof (cases r)
    case None
    with Returns show ?thesis by (simp only: face_try_def outcome.case option.case) simp
  next
    case (Some faces)
    show ?thesis
    proof (cases faces)
      case Nil
      with Returns Some show ?thesis
        by (simp only: face_try_def outcome.case option.case list.case) simp
    next
      case (Cons face rest)
      with assms Returns Some have "length face < 387"
        by (simp only: face_capability_fails_def outcome.case option.case list.case)
      with Returns Some Cons show ?thesis
        using face_try_short [of f img face rest] by simp
    qed
  qed
qed

lemma analyze_face_mesh_fails:
  assumes "unavailable_or face_capability_fails detector img"
  shows "analyze_face_mesh detector img = empty_face"
proof (cases detector)
  case None
  then show ?thesis by (simp only: analyze_face_mesh_def option.case)
next
  case (Some f)
  with assms have "face_capability_fails f img"
    by (simp only: unavailable_or_def option.case)
  from face_try_fails [OF this] show ?thesis
    unfolding Some analyze_face_mesh_def by (auto simp only: option.case sum.case)
qed

lemma hand_entry_short:
  assumes "length raw < 9"
  shows "\<exists>e. hand_entry results hand_idx raw = Inl e"
proof -
  define lms where "lms = map (\<lambda>(idx, l). landmark_dict idx l) (enumerate 0 raw)"
  have "length lms \<le> 8" using assms by (simp add: lms_def)
  then have k: "keypoint lms 8 = Inl IndexError" by (rule keypoint_short)
  show ?thesis
    unfolding hand_entry_def Let_def lms_def [symmetric]
    by (rule bindE_Inl_later, rule bindE_Inl_later, rule bindE_Inl_later,
        rule bindE_Inl_now [OF k])
qed

lemma hands_loop_short:
  "list_ex (\<lambda>raw. length raw < 9) found \<Longrightarrow> \<exists>e. hands_loop results hand_idx found = Inl e"
proof (induction found arbitrary: hand_idx)
  case Nil
  then show ?case by simp
next
  case (Cons raw rest)
  show ?case
  proof (cases "length raw < 9")
    case True
    from hand_entry_short [OF this, of results hand_idx] show ?thesis by auto
  next
    case False
    with Cons.prems have "list_ex (\<lambda>raw. length raw < 9) rest" by simp
    from Cons.IH [OF this, of "Suc hand_idx"] show ?thesis
      by (cases "hand_entry results hand_idx raw") auto
  qed
qed

lemma analyze_hands_fails:
  assumes "unavailable_or hands_capability_fails detector img"
  shows "analyze_hands detector img = empty_hands"
proof (cases detector)
  case None
  then show ?thesis by (simp only: analyze_hands_def option.case)
next
  case (Some f)
  with assms have fails: "hands_capability_fails f img"
    by (simp only: unavailable_or_def option.case)
  have "\<exists>e. hands_try f img = Inl e"
  proof (cases "f img")
    case Raises
    then show ?thesis by (simp only: hands_try_def outcome.case) simp
  next
    case (Returns results)
    with fails obtain found where f: "multi_hand_landmarks results = Some found"
        "list_ex (\<lambda>raw. length raw < 9) found"
      by (auto simp: hands_capability_fails_def split: option.splits)
    from hands_loop_short [OF f(2), of results 0] Returns f(1) show ?thesis
      by (auto simp: hands_try_def)
  qed
  then show ?thesis
    unfolding Some analyze_hands_def by (auto simp only: option.case sum.case)
qed

lemma analyze_hands_none_found:
  assumes "f img = Returns results"
    and "multi_hand_landmarks results = None \<or> multi_hand_landmarks results = Some []"
  shows "analyze_hands (Some f) img =
           \<lparr>hands_detected = False, hand_count = Some 0, hands = []\<rparr>"
  using assms by (auto simp: analyze_hands_def hands_try_def)

subsection \<open>Claims about the facades\<close>

text \<open>
  C3, as stated, fails: with the emotion detector unavailable \<open>analyze_emotion\<close> returns
  the label \<open>unknown\<close>, not the neutral result.
\<close>

theorem analyze_emotion_unavailable_counterexample:
  "analyze_emotion None () = \<lparr>emotion = ''unknown'', confidence = 0, all_emotions = []\<rparr>
   \<and> analyze_emotion None () \<noteq> \<lparr>emotion = ''neutral'', confidence = 0, all_emotions = []\<rparr>"
  by (simp add: analyze_emotion_def unknown_emotion_def)

text \<open>
  C3, amended. With the detector unavailable \<open>analyze_emotion\<close> returns \<open>unknown\<close> with
  confidence 0 and no scores. When the call raises, finds no face or returns a malformed
  face, and whenever anything raises inside its \<open>try\<close>, it returns the neutral result.
  \<open>analyze_pose\<close> and \<open>analyze_face_mesh\<close> return their empty result, \<open>detected\<close>
  false and no landmarks, when the detector is unavailable, when its call raises, returns
  nothing or too few landmarks, and whenever anything raises inside their \<open>try\<close>.
  \<open>analyze_hands\<close> returns \<open>detected\<close> false and no hands in the same cases: the
  result without a count when the detector is unavailable, its call raises, a hand has too
  few landmarks or anything raises inside the \<open>try\<close>, and the result with a count of
  0 when the detector returns and finds no hand. No facade passes an exception on.
\<close>

theorem facade_failure_results:
  "analyze_emotion None img = \<lparr>emotion = ''unknown'', confidence = 0, all_emotions = []\<rparr>
   \<and> (emotion_capability_fails fe img \<or> emotion_try fe img = Inl e1 \<longrightarrow>
        analyze_emotion (Some fe) img
          = \<lparr>emotion = ''neutral'', confidence = 0, all_emotions = []\<rparr>)
   \<and> (unavailable_or pose_capability_fails dp img
        \<or> (\<exists>f. dp = Some f \<and> pose_try f img = Inl e2) \<longrightarrow>
        analyze_pose dp img
          = \<lparr>pose_detected = False, pose_landmarks = [], pose_named = []\<rparr>)
   \<and> (unavailable_or face_capability_fails df img
        \<or> (\<exists>f. df = Some f \<and> face_try f img = Inl e3) \<longrightarrow>
        analyze_face_mesh df img
          = \<lparr>face_detected = False, face_landmark_count = None, face_landmarks = [],
             features = None\<rparr>)
   \<and> (unavailable_or hands_capability_fails dh img
        \<or> (\<exists>f. dh = Some f \<and> hands_try f img = Inl e4) \<longrightarrow>
        analyze_hands dh img = \<lparr>hands_detected = False, hand_count = None, hands = []\<rparr>)
   \<and> (hands_none_found fh img \<longrightarrow>
        analyze_hands (Some fh) img
          = \<lparr>hands_detected = False, hand_count = Some 0, hands = []\<rparr>)"
proof (intro conjI impI)
  show "analyze_emotion None img = \<lparr>emotion = ''unknown'', confidence = 0, all_emotions = []\<rparr>"
    by (simp add: analyze_emotion_def unknown_emotion_def)
next
  assume "emotion_capability_fails fe img \<or> emotion_try fe img = Inl e1"
  then have "analyze_emotion (Some fe) img = neutral_emotion"
    using analyze_emotion_fails [of fe img] by (auto simp: analyze_emotion_def)
  then show "analyze_emotion (Some fe) img
      = \<lparr>emotion = ''neutral'', confidence = 0, all_emotions = []\<rparr>"
    by (simp add: neutral_emotion_def)
next
  assume "unavailable_or pose_capability_fails dp img
      \<or> (\<exists>f. dp = Some f \<and> pose_try f img = Inl e2)"
  then have "analyze_pose dp img = empty_pose"
    using analyze_pose_fails [of dp img] by (auto simp: analyze_pose_def)
  then show "analyze_pose dp img
      = \<lparr>pose_detected = False, pose_landmarks = [], pose_named = []\<rparr>"
    by (simp add: empty_pose_def)
next
  assume "unavailable_or face_capability_fails df img
      \<or> (\<exists>f. df = Some f \<and> face_try f img = Inl e3)"
  then have "analyze_face_mesh df img = empty_face"
    using analyze_face_mesh_fails [of df img] by (auto simp: analyze_face_mesh_def)
  then show "analyze_face_mesh df img
      = \<lparr>face_detected = False, face_landmark_count = None, face_landmarks = [],
         features = None\<rparr>"
    by (simp add: empty_face_def)
next
  assume "unavailable_or hands_capability_fails dh img
      \<or> (\<exists>f. dh = Some f \<and> hands_try f img = Inl e4)"
  then have "analyze_hands dh img = empty_hands"
    using analyze_hands_fails [of dh img] by (auto simp: analyze_hands_def)
  then show "analyze_hands dh img
      = \<lparr>hands_detected = False, hand_count = None, hands = []\<rparr>"
    by (simp add: empty_hands_def)
next
  assume "hands_none_found fh img"
  then obtain results where "fh img = Returns results"
    and "multi_hand_landmarks results = None \<or> multi_hand_landmarks results = Some []"
    by (auto simp: hands_none_found_def split: outcome.splits option.splits)
  then show "analyze_hands (Some fh) img
      = \<lparr>hands_detected = False, hand_count = Some 0, hands = []\<rparr>"
    by (rule analyze_hands_none_found)
qed

theorem facade_failure_results_witness:
  "emotion_capability_fails fer_raises ()
   \<and> analyze_emotion (Some fer_raises) ()
       = \<lparr>emotion = ''neutral'', confidence = 0, all_emotions = []\<rparr>
   \<and> unavailable_or pose_capability_fails (Some pose10) ()
   \<and> analyze_pose (Some pose10) ()
       = \<lparr>pose_detected = False, pose_landmarks = [], pose_named = []\<rparr>
   \<and> unavailable_or face_capability_fails (Some mesh_short) ()
   \<and> analyze_face_mesh (Some mesh_short) ()
       = \<lparr>face_detected = False, face_landmark_count = None, face_landmarks = [],
          features = None\<rparr>
   \<and> unavailable_or hands_capability_fails (Some hands_short) ()
   \<and> analyze_hands (Some hands_short) ()
       = \<lparr>hands_detected = False, hand_count = None, hands = []\<rparr>
   \<and> hands_none_found hands_nothing ()
   \<and> analyze_hands (Some hands_nothing) ()
       = \<lparr>hands_detected = False, hand_count = Some 0, hands = []\<rparr>"
proof -
  have h: "emotion_capability_fails fer_raises ()"
      "unavailable_or pose_capability_fails (Some pose10) ()"
      "unavailable_or face_capability_fails (Some mesh_short) ()"
      "unavailable_or hands_capability_fails (Some hands_short) ()"
      "hands_none_found hands_nothing ()"
    by (simp_all add: emotion_capability_fails_def fer_raises_def unavailable_or_def
        pose_capability_fails_def pose10_def face_capability_fails_def mesh_short_def
        hands_capability_fails_def hands_short_def hands_none_found_def hands_nothing_def)
  show ?thesis
    using h facade_failure_results
      [of "()" fer_raises _ "Some pose10" _ "Some mesh_short" _ "Some hands_short" _
        hands_nothing]
    by simp
qed

text \<open>
  C8, as stated, fails: when the pose detector yields 10 landmarks, index 0 is present,
  yet the result is the empty one and has no \<open>nose\<close>: the lookup of index 11 raises
  inside the \<open>try\<close>.
\<close>

theorem pose_ten_landmarks_counterexample:
  "pose10 () = Returns (Some (replicate 10 raw0))
   \<and> 0 < length (replicate 10 raw0)
   \<and> analyze_pose (Some pose10) ()
       = \<lparr>pose_detected = False, pose_landmarks = [], pose_named = []\<rparr>
   \<and> map_of (pose_named (analyze_pose (Some pose10) ())) ''nose'' = None"
proof -
  have "unavailable_or pose_capability_fails (Some pose10) ()"
    by (simp add: unavailable_or_def pose_capability_fails_def pose10_def)
  then have "analyze_pose (Some pose10) () = empty_pose"
    by (rule analyze_pose_fails)
  then show ?thesis by (simp add: empty_pose_def pose10_def)
qed

text \<open>
  C8, amended. When the pose detector yields at least 13 landmarks, the result is
  detected, holds \<open>nose\<close>, \<open>left_shoulder\<close> and \<open>right_shoulder\<close> (indices 0, 11, 12),
  and holds each of \<open>left_hand\<close>, \<open>right_hand\<close>, \<open>left_hip\<close>, \<open>right_hip\<close> as a point
  exactly when the landmark count covers its index (15, 16, 23, 24) and as \<open>None\<close>
  otherwise. With fewer than 13 landmarks the result is the empty one, with no named
  keypoint at all.
\<close>

theorem pose_named_keypoints:
  "(f img = Returns (Some raw) \<and> 13 \<le> length raw \<longrightarrow>
      analyze_pose (Some f) img =
       \<lparr>pose_detected = True,
        pose_landmarks = map (\<lambda>(idx, l). pose_landmark_dict idx l) (enumerate 0 raw),
        pose_named =
          [(''nose'', Some (point_dict (raw_x (raw ! 0)) (raw_y (raw ! 0)))),
           (''left_hand'', if 15 < length raw
              then Some (point_dict (raw_x (raw ! 15)) (raw_y (raw ! 15))) else None),
           (''right_hand'', if 16 < length raw
              then Some (point_dict (raw_x (raw ! 16)) (raw_y (raw ! 16))) else None),
           (''left_shoulder'', Some (point_dict (raw_x (raw ! 11)) (raw_y (raw ! 11)))),
           (''right_shoulder'', Some (point_dict (raw_x (raw ! 12)) (raw_y (raw ! 12)))),
           (''left_hip'', if 23 < length raw
              then Some (point_dict (raw_x (raw ! 23)) (raw_y (raw ! 23))) else None),
           (''right_hip'', if 24 < length raw
              then Some (point_dict (raw_x (raw ! 24)) (raw_y (raw ! 24))) else None)]\<rparr>)
   \<and> (f img = Returns (Some raw) \<and> length raw < 13 \<longrightarrow>
      analyze_pose (Some f) img
        = \<lparr>pose_detected = False, pose_landmarks = [], pose_named = []\<rparr>)"
proof (intro conjI impI)
  assume "f img = Returns (Some raw) \<and> 13 \<le> length raw"
  then show "analyze_pose (Some f) img =
       \<lparr>pose_detected = True,
        pose_landmarks = map (\<lambda>(idx, l). pose_landmark_dict idx l) (enumerate 0 raw),
        pose_named =
          [(''nose'', Some (point_dict (raw_x (raw ! 0)) (raw_y (raw ! 0)))),
           (''left_hand'', if 15 < length raw
              then Some (point_dict (raw_x (raw ! 15)) (raw_y (raw ! 15))) else None),
           (''right_hand'', if 16 < length raw
              then Some (point_dict (raw_x (raw ! 16)) (raw_y (raw ! 16))) else None),
           (''left_shoulder'', Some (point_dict (raw_x (raw ! 11)) (raw_y (raw ! 11)))),
           (''right_shoulder'', Some (point_dict (raw_x (raw ! 12)) (raw_y (raw ! 12)))),
           (''left_hip'', if 23 < length raw
              then Some (point_dict (raw_x (raw ! 23)) (raw_y (raw ! 23))) else None),
           (''right_hip'', if 24 < length raw
              then Some (point_dict (raw_x (raw ! 24)) (raw_y (raw ! 24))) else None)]\<rparr>"
    using analyze_pose_covered [of f img raw] by blast
next
  assume a: "f img = Returns (Some raw) \<and> length raw < 13"
  then have "unavailable_or pose_capability_fails (Some f) img"
    by (simp add: unavailable_or_def pose_capability_fails_def)
  then have "analyze_pose (Some f) img = empty_pose"
    by (rule analyze_pose_fails)
  then show "analyze_pose (Some f) img
      = \<lparr>pose_detected = False, pose_landmarks = [], pose_named = []\<rparr>"
    by (simp add: empty_pose_def)
qed

theorem pose_named_keypoints_witness:
  "pose16 () = Returns (Some (replicate 16 raw0)) \<and> 13 \<le> length (replicate 16 raw0)
   \<and> pose_named (analyze_pose (Some pose16) ()) =
        [(''nose'', Some (point_dict 0.5 0.5)), (''left_hand'', Some (point_dict 0.5 0.5)),
         (''right_hand'', None), (''left_shoulder'', Some (point_dict 0.5 0.5)),
         (''right_shoulder'', Some (point_dict 0.5 0.5)), (''left_hip'', None),
         (''right_hip'', None)]
   \<and> pose10 () = Returns (Some (replicate 10 raw0)) \<and> length (replicate 10 raw0) < 13
   \<and> analyze_pose (Some pose10) ()
        = \<lparr>pose_detected = False, pose_landmarks = [], pose_named = []\<rparr>"
proof -
  have a: "pose16 () = Returns (Some (replicate 16 raw0))"
     and b: "pose10 () = Returns (Some (replicate 10 raw0))"
    by (simp_all add: pose16_def pose10_def)
  have "pose_named (analyze_pose (Some pose16) ()) =
        [(''nose'', Some (point_dict 0.5 0.5)), (''left_hand'', Some (point_dict 0.5 0.5)),
         (''right_hand'', None), (''left_shoulder'', Some (point_dict 0.5 0.5)),
         (''right_shoulder'', Some (point_dict 0.5 0.5)), (''left_hip'', None),
         (''right_hip'', None)]"
    using pose_named_keypoints [of pose16 "()" "replicate 16 raw0"] a
    by (simp add: raw0_def)
  moreover have "analyze_pose (Some pose10) ()
        = \<lparr>pose_detected = False, pose_landmarks = [], pose_named = []\<rparr>"
    using pose_named_keypoints [of pose10 "()" "replicate 10 raw0"] b by simp
  ultimately show ?thesis using a b by simp
qed

subsection \<open>Transport and broadcast\<close>

lemma send_json_attempted:
  "attempted (snd (send_json se ws msg net)) = attempted net @ [(ws, msg)]"
  by (simp add: send_json_def Let_def split: option.splits)

lemma send_json_delivered:
  "delivered (snd (send_json se ws msg net)) c =
     delivered net c @ (if c = ws \<and> se ws = None then [msg] else [])"
  by (simp add: send_json_def Let_def split: option.splits)

lemma broadcast_loop_snd:
  "broadcast_loop se (c # cs) msg net = broadcast_loop se cs msg (snd (send_json se c msg net))"
  by (cases "send_json se c msg net") (auto split: option.splits)

lemma broadcast_loop_attempted:
  "attempted (broadcast_loop se cs msg net) = attempted net @ map (\<lambda>c. (c, msg)) cs"
proof (induction cs arbitrary: net)
  case Nil
  show ?case by simp
next
  case (Cons c cs)
  show ?case
    unfolding broadcast_loop_snd Cons.IH send_json_attempted by simp
qed

lemma broadcast_loop_delivered:
  "delivered (broadcast_loop se cs msg net) c =
     delivered net c @ (if se c = None then replicate (count_list cs c) msg else [])"
proof (induction cs arbitrary: net)
  case Nil
  show ?case by simp
next
  case (Cons d cs)
  show ?case
    unfolding broadcast_loop_snd Cons.IH send_json_delivered
    by (simp add: replicate_app_Cons_same)
qed

text \<open>
  C5. \<open>broadcast\<close> calls \<^verbatim>\<open>send_json\<close> once for every registered session, in order,
  whatever the sends do: a send that raises stops nothing. Every session whose send does
  not raise is delivered the message (once for each time it is registered).
\<close>

theorem broadcast_attempts_every_session:
  "attempted (broadcast se m message net)
     = attempted net @ map (\<lambda>c. (c, message)) (active_connections m)
   \<and> delivered (broadcast se m message net) c
     = delivered net c
       @ (if se c = None then replicate (count_list (active_connections m) c) message else [])"
  by (simp add: broadcast_def broadcast_loop_attempted broadcast_loop_delivered)

theorem broadcast_attempts_every_session_witness:
  "active_connections three_sessions = [1, 2, 3]
   \<and> second_broken 2 = Some WebSocketDisconnect
   \<and> attempted (broadcast second_broken three_sessions (Notice ''hi'') net0)
       = [(1, Notice ''hi''), (2, Notice ''hi''), (3, Notice ''hi'')]
   \<and> delivered (broadcast second_broken three_sessions (Notice ''hi'') net0) 1 = [Notice ''hi'']
   \<and> delivered (broadcast second_broken three_sessions (Notice ''hi'') net0) 2 = []
   \<and> delivered (broadcast second_broken three_sessions (Notice ''hi'') net0) 3 = [Notice ''hi'']"
  using broadcast_attempts_every_session [of second_broken three_sessions "Notice ''hi''" net0 1]
    broadcast_attempts_every_session [of second_broken three_sessions "Notice ''hi''" net0 2]
    broadcast_attempts_every_session [of second_broken three_sessions "Notice ''hi''" net0 3]
  by (simp add: three_sessions_def second_broken_def net0_def init_manager_def)

subsection \<open>The session handler\<close>

lemma handle_message_other:
  assumes "py_get (map_of items) ''type'' JNull \<noteq> JStr ''frame''"
    and "py_get (map_of items) ''type'' JNull \<noteq> JStr ''ping''"
  shows "handle_message env ws (JObj items) (m, net) = (None, m, net)"
  using assms by (simp add: handle_message_def Let_def)

lemma handle_message_not_object:
  assumes "\<forall>items. data \<noteq> JObj items"
  shows "handle_message env ws data (m, net) = (Some AttributeError, m, net)"
  using assms by (cases data) (simp_all add: handle_message_def)

lemma handle_message_ping:
  assumes "py_get (map_of items) ''type'' JNull = JStr ''ping''"
  shows "fst (snd (handle_message env ws (JObj items) (m, net))) = m"
  using assms by (simp add: handle_message_def Let_def split: prod.splits)

lemma frame_body_decoded:
  assumes "decode_base64_image (decode_bytes env) (py_get (map_of items) ''data'' (JStr [])) = Inr img"
  shows "\<exists>m' response. frame_body env items m = Inr (m', response)
     \<and> last_emotion m' =
         (if truthy (py_get (map_of items) ''analyze_emotion'' (JBool False))
          then analyze_emotion (emotion_detector env) img else last_emotion m)
     \<and> last_pose m' =
         (if truthy (py_get (map_of items) ''analyze_pose'' (JBool False))
          then Some (analyze_pose (pose_detector env) img) else last_pose m)
     \<and> active_connections m' = active_connections m"
  unfolding frame_body_def assms by (simp add: Let_def)

lemma handle_message_frame_decoded:
  assumes "py_get (map_of items) ''type'' JNull = JStr ''frame''"
    and "frame_body env items m = Inr (m', response)"
  shows "fst (snd (handle_message env ws (JObj items) (m, net))) = m'"
  using assms by (simp add: handle_message_def Let_def split: prod.splits option.splits)

lemma handle_message_frame_failed:
  assumes "py_get (map_of items) ''type'' JNull = JStr ''frame''"
    and "decode_base64_image (decode_bytes env) (py_get (map_of items) ''data'' (JStr [])) = Inl e"
  shows "fst (snd (handle_message env ws (JObj items) (m, net))) = m"
  using assms by (simp add: handle_message_def frame_body_def Let_def split: prod.splits)

lemma flaky_good:
  "analyze_emotion (Some flaky_fer) True
     = \<lparr>emotion = ''happy'', confidence = 0.8, all_emotions = happy_scores\<rparr>"
  by (simp add: analyze_emotion_def emotion_try_def flaky_fer_def py_getitem_def
      py_max_key_def happy_scores_def)

lemma flaky_bad: "analyze_emotion (Some flaky_fer) False = neutral_emotion"
  by (simp add: analyze_emotion_def emotion_try_def flaky_fer_def)

lemma flaky_handle:
  assumes "CHR '','' \<notin> set d"
  shows "\<exists>net'. handle_message flaky_env ws (emotion_frame d) (m, net)
     = (None, m\<lparr>last_emotion := analyze_emotion (Some flaky_fer) (d = ''good''),
                last_pose := Some empty_pose\<rparr>, net')"
  using assms
  by (simp add: handle_message_def emotion_frame_def frame_items_def py_get_def
      frame_body_def decode_base64_image_def flaky_env_def Let_def analyze_pose_def
      send_json_def)

lemma flaky_step:
  assumes "CHR '','' \<notin> set d"
  shows "\<exists>net'. session_loop flaky_env ws (m, net) (Received (emotion_frame d) # evs)
     = session_loop flaky_env ws
         (m\<lparr>last_emotion := analyze_emotion (Some flaky_fer) (d = ''good''),
            last_pose := Some empty_pose\<rparr>, net') evs"
proof -
  from flaky_handle [OF assms, of ws m net] obtain net' where
    "handle_message flaky_env ws (emotion_frame d) (m, net)
     = (None, m\<lparr>last_emotion := analyze_emotion (Some flaky_fer) (d = ''good''),
                last_pose := Some empty_pose\<rparr>, net')" ..
  then have "session_loop flaky_env ws (m, net) (Received (emotion_frame d) # evs)
     = session_loop flaky_env ws
         (m\<lparr>last_emotion := analyze_emotion (Some flaky_fer) (d = ''good''),
            last_pose := Some empty_pose\<rparr>, net') evs"
    by (simp only: session_loop.simps prod.case option.case)
  then show ?thesis ..
qed

subsection \<open>Claims about the session handler\<close>

text \<open>
  C2, as stated, fails: a first frame caches the happy result; on the second frame the
  emotion detector raises and the pose detector is unavailable, and both cached fields
  are overwritten with the failure placeholders.
\<close>

theorem cache_overwritten_counterexample:
  "last_emotion (fst (fst (session_loop flaky_env 1 (init_manager, net0)
       [Received (emotion_frame ''good'')])))
     = \<lparr>emotion = ''happy'', confidence = 0.8, all_emotions = happy_scores\<rparr>
   \<and> flaky_fer False = Raises
   \<and> last_emotion (fst (fst (session_loop flaky_env 1 (init_manager, net0)
       [Received (emotion_frame ''good''), Received (emotion_frame ''bad'')])))
     = \<lparr>emotion = ''neutral'', confidence = 0, all_emotions = []\<rparr>
   \<and> last_pose (fst (fst (session_loop flaky_env 1 (init_manager, net0)
       [Received (emotion_frame ''good''), Received (emotion_frame ''bad'')])))
     = Some \<lparr>pose_detected = False, pose_landmarks = [], pose_named = []\<rparr>"
proof -
  have c1: "CHR '','' \<notin> set ''good''" and c2: "CHR '','' \<notin> set ''bad''"
    by simp_all
  define m1 where "m1 = init_manager
      \<lparr>last_emotion := analyze_emotion (Some flaky_fer) (''good'' = ''good''),
       last_pose := Some empty_pose\<rparr>"
  define m2 where "m2 = m1
      \<lparr>last_emotion := analyze_emotion (Some flaky_fer) (''bad'' = ''good''),
       last_pose := Some empty_pose\<rparr>"
  obtain net1 where one: "session_loop flaky_env 1 (init_manager, net0)
        [Received (emotion_frame ''good'')] = session_loop flaky_env 1 (m1, net1) []"
    unfolding m1_def using flaky_step [OF c1, of 1 init_manager net0 "[]"] by blast
  obtain net2 where two: "session_loop flaky_env 1 (init_manager, net0)
        [Received (emotion_frame ''good''), Received (emotion_frame ''bad'')]
      = session_loop flaky_env 1 (m1, net2) [Received (emotion_frame ''bad'')]"
    unfolding m1_def
    using flaky_step [OF c1, of 1 init_manager net0 "[Received (emotion_frame ''bad'')]"]
    by blast
  obtain net3 where three: "session_loop flaky_env 1 (m1, net2)
        [Received (emotion_frame ''bad'')] = session_loop flaky_env 1 (m2, net3) []"
    unfolding m2_def using flaky_step [OF c2, of 1 m1 net2 "[]"] by blast
  have e1: "last_emotion m1 = \<lparr>emotion = ''happy'', confidence = 0.8, all_emotions = happy_scores\<rparr>"
    by (simp add: m1_def flaky_good)
  have e2: "last_emotion m2 = \<lparr>emotion = ''neutral'', confidence = 0, all_emotions = []\<rparr>"
      "last_pose m2 = Some \<lparr>pose_detected = False, pose_landmarks = [], pose_named = []\<rparr>"
    by (simp_all add: m2_def flaky_bad neutral_emotion_def empty_pose_def)
  show ?thesis
    unfolding one two three by (simp add: e1 e2 flaky_fer_def)
qed

text \<open>
  C2, amended. After a frame message whose image decodes, \<open>last_emotion\<close> is the result
  of that frame's emotion analysis if the frame asks for it, whatever the result is, and
  is unchanged otherwise; the same for \<open>last_pose\<close>. A frame whose image does not decode,
  a message of another type and a message that is not an object leave both unchanged.
\<close>

theorem cache_holds_latest_result:
  "(py_get (map_of items) ''type'' JNull = JStr ''frame''
      \<and> decode_base64_image (decode_bytes env) (py_get (map_of items) ''data'' (JStr [])) = Inr img
    \<longrightarrow>
      last_emotion (fst (snd (handle_message env ws (JObj items) (m, net)))) =
        (if truthy (py_get (map_of items) ''analyze_emotion'' (JBool False))
         then analyze_emotion (emotion_detector env) img else last_emotion m)
      \<and> last_pose (fst (snd (handle_message env ws (JObj items) (m, net)))) =
        (if truthy (py_get (map_of items) ''analyze_pose'' (JBool False))
         then Some (analyze_pose (pose_detector env) img) else last_pose m))
   \<and> (py_get (map_of items) ''type'' JNull \<noteq> JStr ''frame''
       \<or> decode_base64_image (decode_bytes env) (py_get (map_of items) ''data'' (JStr [])) = Inl e
    \<longrightarrow> fst (snd (handle_message env ws (JObj items) (m, net))) = m)
   \<and> ((\<forall>items. data \<noteq> JObj items)
    \<longrightarrow> fst (snd (handle_message env ws data (m, net))) = m)"
proof (intro conjI impI)
  assume a: "py_get (map_of items) ''type'' JNull = JStr ''frame''
      \<and> decode_base64_image (decode_bytes env) (py_get (map_of items) ''data'' (JStr [])) = Inr img"
  then obtain m' response where fb: "frame_body env items m = Inr (m', response)"
    and le: "last_emotion m' =
         (if truthy (py_get (map_of items) ''analyze_emotion'' (JBool False))
          then analyze_emotion (emotion_detector env) img else last_emotion m)"
    and lp: "last_pose m' =
         (if truthy (py_get (map_of items) ''analyze_pose'' (JBool False))
          then Some (analyze_pose (pose_detector env) img) else last_pose m)"
    using frame_body_decoded [of env items img m] by blast
  have eq: "fst (snd (handle_message env ws (JObj items) (m, net))) = m'"
    using a fb by (intro handle_message_frame_decoded) simp_all
  show "last_emotion (fst (snd (handle_message env ws (JObj items) (m, net)))) =
        (if truthy (py_get (map_of items) ''analyze_emotion'' (JBool False))
         then analyze_emotion (emotion_detector env) img else last_emotion m)"
    unfolding eq by (rule le)
  show "last_pose (fst (snd (handle_message env ws (JObj items) (m, net)))) =
        (if truthy (py_get (map_of items) ''analyze_pose'' (JBool False))
         then Some (analyze_pose (pose_detector env) img) else last_pose m)"
    unfolding eq by (rule lp)
next
  assume a: "py_get (map_of items) ''type'' JNull \<noteq> JStr ''frame''
       \<or> decode_base64_image (decode_bytes env) (py_get (map_of items) ''data'' (JStr [])) = Inl e"
  show "fst (snd (handle_message env ws (JObj items) (m, net))) = m"
  proof (cases "py_get (map_of items) ''type'' JNull = JStr ''frame''")
    case True
    with a show ?thesis by (auto intro: handle_message_frame_failed)
  next
    case False
    show ?thesis
    proof (cases "py_get (map_of items) ''type'' JNull = JStr ''ping''")
      case True
      then show ?thesis by (rule handle_message_ping)
    next
      case False
      with \<open>py_get (map_of items) ''type'' JNull \<noteq> JStr ''frame''\<close> show ?thesis
        by (simp add: handle_message_other)
    qed
  qed
next
  assume "\<forall>items. data \<noteq> JObj items"
  then show "fst (snd (handle_message env ws data (m, net))) = m"
    by (simp add: handle_message_not_object)
qed

theorem cache_holds_latest_result_witness:
  "py_get (map_of (frame_items ''bad'')) ''type'' JNull = JStr ''frame''
   \<and> decode_base64_image (decode_bytes flaky_env)
         (py_get (map_of (frame_items ''bad'')) ''data'' (JStr [])) = Inr False
   \<and> last_emotion (fst (snd (handle_message flaky_env 1 (JObj (frame_items ''bad''))
         (init_manager, net0))))
       = \<lparr>emotion = ''neutral'', confidence = 0, all_emotions = []\<rparr>
   \<and> last_pose (fst (snd (handle_message flaky_env 1 (JObj (frame_items ''bad''))
         (init_manager, net0))))
       = Some \<lparr>pose_detected = False, pose_landmarks = [], pose_named = []\<rparr>
   \<and> py_get (map_of chunk_items) ''type'' JNull \<noteq> JStr ''frame''
   \<and> fst (snd (handle_message flaky_env 1 (JObj chunk_items) (init_manager, net0)))
       = init_manager
   \<and> (\<forall>items. JArr [] \<noteq> JObj items)
   \<and> fst (snd (handle_message flaky_env 1 (JArr []) (init_manager, net0))) = init_manager"
proof -
  have t: "py_get (map_of (frame_items ''bad'')) ''type'' JNull = JStr ''frame''"
    and d: "decode_base64_image (decode_bytes flaky_env)
         (py_get (map_of (frame_items ''bad'')) ''data'' (JStr [])) = Inr False"
    and fl: "truthy (py_get (map_of (frame_items ''bad'')) ''analyze_emotion'' (JBool False))"
      "truthy (py_get (map_of (frame_items ''bad'')) ''analyze_pose'' (JBool False))"
    and c: "py_get (map_of chunk_items) ''type'' JNull \<noteq> JStr ''frame''"
    by (simp_all add: frame_items_def chunk_items_def py_get_def decode_base64_image_def
        flaky_env_def)
  have det: "emotion_detector flaky_env = Some flaky_fer" "pose_detector flaky_env = None"
    by (simp_all add: flaky_env_def)
  note a = cache_holds_latest_result
    [of "frame_items ''bad''" flaky_env False 1 init_manager net0 _ "JArr []"]
  note b = cache_holds_latest_result
    [of chunk_items flaky_env _ 1 init_manager net0 _ "JArr []"]
  show ?thesis
    using a b t d fl c
    by (simp add: det flaky_bad neutral_emotion_def analyze_pose_def empty_pose_def)
qed

text \<open>
  C9, as stated, fails: on a message of type \<open>audio_chunk\<close> the handler sends nothing,
  no error response included; and on a message that is not an object (a malformed one)
  the handler ends and the session is unregistered.
\<close>

theorem unrecognized_type_counterexample:
  "handle_message flaky_env 1 audio_chunk (connect init_manager 1, net0)
     = (None, connect init_manager 1, net0)
   \<and> attempted net0 = []
   \<and> snd (session_loop flaky_env 1 (connect init_manager 1, net0) [Received (JArr [])])
     = Closed
   \<and> active_connections
        (fst (fst (session_loop flaky_env 1 (connect init_manager 1, net0) [Received (JArr [])])))
     = []"
  by (simp add: audio_chunk_def chunk_items_def handle_message_def py_get_def net0_def
      connect_def disconnect_def init_manager_def)

text \<open>
  C9, amended. On a message that is an object whose type is neither \<open>frame\<close> nor
  \<open>ping\<close> (or is absent), the handler sends nothing, changes nothing, and goes on to
  the next message: the connection stays open. On a message that is not an object the
  handler unregisters the session and ends.
\<close>

theorem unrecognized_type_ignored:
  "(py_get (map_of items) ''type'' JNull \<noteq> JStr ''frame''
      \<and> py_get (map_of items) ''type'' JNull \<noteq> JStr ''ping''
    \<longrightarrow> handle_message env ws (JObj items) (m, net) = (None, m, net)
      \<and> session_loop env ws (m, net) (Received (JObj items) # evs)
          = session_loop env ws (m, net) evs)
   \<and> ((\<forall>items. data \<noteq> JObj items)
    \<longrightarrow> session_loop env ws (m, net) (Received data # evs)
          = ((disconnect m ws, net), Closed))"
proof (intro conjI impI)
  assume a: "py_get (map_of items) ''type'' JNull \<noteq> JStr ''frame''
      \<and> py_get (map_of items) ''type'' JNull \<noteq> JStr ''ping''"
  then show h: "handle_message env ws (JObj items) (m, net) = (None, m, net)"
    by (simp add: handle_message_other)
  show "session_loop env ws (m, net) (Received (JObj items) # evs)
          = session_loop env ws (m, net) evs"
    by (simp only: session_loop.simps h prod.case option.case)
next
  assume "\<forall>items. data \<noteq> JObj items"
  then have "handle_message env ws data (m, net) = (Some AttributeError, m, net)"
    by (rule handle_message_not_object)
  then show "session_loop env ws (m, net) (Received data # evs)
          = ((disconnect m ws, net), Closed)"
    by (simp only: session_loop.simps prod.case option.case)
qed

theorem unrecognized_type_ignored_witness:
  "py_get (map_of chunk_items) ''type'' JNull \<noteq> JStr ''frame''
   \<and> py_get (map_of chunk_items) ''type'' JNull \<noteq> JStr ''ping''
   \<and> session_loop flaky_env 1 (connect init_manager 1, net0)
        [Received (JObj chunk_items), Received ping]
     = session_loop flaky_env 1 (connect init_manager 1, net0) [Received ping]
   \<and> session_loop flaky_env 1 (connect init_manager 1, net0) [Received ping]
     = ((connect init_manager 1,
         \<lparr>attempted = [(1, Pong)], delivered = (\<lambda>c. [])(1 := [Pong])\<rparr>), Awaiting)
   \<and> (\<forall>items. JArr [] \<noteq> JObj items)
   \<and> session_loop flaky_env 1 (connect init_manager 1, net0) [Received (JArr []), Received ping]
     = ((disconnect (connect init_manager 1) 1, net0), Closed)"
proof -
  have c: "py_get (map_of chunk_items) ''type'' JNull \<noteq> JStr ''frame''"
      "py_get (map_of chunk_items) ''type'' JNull \<noteq> JStr ''ping''"
    by (simp_all add: chunk_items_def py_get_def)
  have p: "session_loop flaky_env 1 (connect init_manager 1, net0) [Received ping]
     = ((connect init_manager 1,
         \<lparr>attempted = [(1, Pong)], delivered = (\<lambda>c. [])(1 := [Pong])\<rparr>), Awaiting)"
    by (simp add: ping_def handle_message_def py_get_def send_json_def flaky_env_def net0_def)
  show ?thesis
    using c p
      unrecognized_type_ignored [of chunk_items flaky_env 1 "connect init_manager 1" net0
        "[Received ping]" "JArr []"]
    by simp
qed

subsection \<open>Claims about the beat stream\<close>

lemma small_in_range: "\<bar>r\<bar> \<le> 1000 \<Longrightarrow> \<not> dbl_overflows r"
proof -
  assume "\<bar>r\<bar> \<le> 1000"
  moreover have "(1000 :: real) < dbl_threshold" by (simp add: dbl_threshold_def)
  ultimately show ?thesis by (simp add: dbl_overflows_def)
qed

lemma tempos_in_range:
  "\<not> dbl_overflows 0" "\<not> dbl_overflows (- 60)" "\<not> dbl_overflows 60"
  "\<not> dbl_overflows 90" "\<not> dbl_overflows 120"
  by (simp_all add: small_in_range)

text \<open>
  C7, as stated, fails: a tempo of 0 is not replaced by 120 but ends the session with
  \<^verbatim>\<open>ZeroDivisionError\<close>; a tempo of -60 is used as it is, with a delay of -1; a tempo
  that is a string ends the session with \<^verbatim>\<open>TypeError\<close>.
\<close>

theorem tempo_not_validated_counterexample:
  "beats_start (Received (JObj [(''tempo'', JInt 0)])) = Inl ZeroDivisionError
   \<and> beats_start (Received (JObj [(''tempo'', JInt (- 60))])) = Inr (JInt (- 60), - 1)
   \<and> beats_start (Received (JObj [(''tempo'', JStr ''fast'')])) = Inl TypeError"
  by (simp add: beats_start_def dict_get_def py_get_def sixty_over_def tempos_in_range)

text \<open>
  C7, amended. When the first message is an object without \<open>tempo\<close>, the tempo is 120
  and the delay 0.5. A tempo that is present is used as sent: for a nonzero integer within
  the range of a double, or a nonzero float, the delay is 60 / tempo. So a tempo of 120
  gives 0.5 and a tempo of 60 gives 1.
\<close>

theorem tempo_default_and_interval:
  "(map_of items ''tempo'' = None
      \<longrightarrow> beats_start (Received (JObj items)) = Inr (JInt 120, 0.5))
   \<and> (map_of items ''tempo'' = Some (JInt n) \<and> n \<noteq> 0 \<and> \<not> dbl_overflows (real_of_int n)
      \<longrightarrow> beats_start (Received (JObj items)) = Inr (JInt n, 60 / real_of_int n))
   \<and> (map_of items ''tempo'' = Some (JFloat r) \<and> r \<noteq> 0
      \<longrightarrow> beats_start (Received (JObj items)) = Inr (JFloat r, 60 / r))
   \<and> beats_start (Received (JObj [(''tempo'', JInt 120)])) = Inr (JInt 120, 0.5)
   \<and> beats_start (Received (JObj [(''tempo'', JInt 60)])) = Inr (JInt 60, 1)"
  by (simp add: beats_start_def dict_get_def py_get_def sixty_over_def tempos_in_range)

theorem tempo_default_and_interval_witness:
  "map_of [(''bpm'', JInt 90)] ''tempo'' = None
   \<and> beats_start (Received (JObj [(''bpm'', JInt 90)])) = Inr (JInt 120, 0.5)
   \<and> map_of [(''tempo'', JInt 90)] ''tempo'' = Some (JInt 90) \<and> (90 :: int) \<noteq> 0
   \<and> \<not> dbl_overflows (real_of_int 90)
   \<and> beats_start (Received (JObj [(''tempo'', JInt 90)])) = Inr (JInt 90, 60 / 90)
   \<and> map_of [(''tempo'', JFloat 7.5)] ''tempo'' = Some (JFloat 7.5) \<and> (7.5 :: real) \<noteq> 0
   \<and> beats_start (Received (JObj [(''tempo'', JFloat 7.5)])) = Inr (JFloat 7.5, 8)"
  using tempo_default_and_interval [of "[(''bpm'', JInt 90)]" 0 0]
    tempo_default_and_interval [of "[(''tempo'', JInt 90)]" 90 0]
    tempo_default_and_interval [of "[(''tempo'', JFloat 7.5)]" 0 "7.5"]
    tempos_in_range
  by simp

subsection \<open>A label that is never returned\<close>

lemma bindE_Inr_iff: "bindE m f = Inr y \<longleftrightarrow> (\<exists>v. m = Inr v \<and> f v = Inr y)"
  by (cases m) simp_all

lemma gesture_rules_not_rock: "gesture_rules lms t i m r p \<noteq> Inr ''ROCK''"
  by (cases t; cases i; cases m; cases r; cases p)
     (auto simp: gesture_rules_def bindE_Inr_iff split: if_splits)

text \<open>
  The row for \<open>ROCK\<close> (thumb and pinky only) comes after the row for \<open>PINKY\<close> (pinky
  only, whatever the thumb), which matches every hand the \<open>ROCK\<close> row would: although
  the health endpoint lists \<open>ROCK\<close> among the supported gestures, \<open>recognize_gesture\<close>
  never returns it.
\<close>

theorem rock_never_returned: "recognize_gesture lms \<noteq> Inr ''ROCK''"
  using gesture_rules_not_rock
  by (auto simp: recognize_gesture_def bindE_Inr_iff)

end
